theory Spec2Isabelle
  imports
    Complex_Main
    "HOL-Library.Char_ord"
    "HOL-Library.List_Lexorder"
    "HOL-Library.Multiset"
begin

section \<open>Strings and decimal numerals\<close>

text \<open>
  Go strings are byte sequences; they are modelled as \<open>string\<close> (lists of 8-bit
  characters).  Go's \<open>int\<close> is the 64-bit signed integer of the target platform; it is
  modelled as \<open>int\<close>, and the wrap-around is written out at the one addition of the
  modelled code whose operands are not bounded by a slice length.
\<close>

definition digit_char :: "int \<Rightarrow> char" where
  "digit_char d = char_of (48 + d)"

function dec_digits :: "int \<Rightarrow> string" where
  "dec_digits n = (if n < 10 then [digit_char n] else dec_digits (n div 10) @ [digit_char (n mod 10)])"
  by pat_completeness auto
termination
  by (relation "measure nat") auto

declare dec_digits.simps [simp del]

text \<open>\<open>strconv.Itoa\<close>, which is also what \<open>fmt.Sprintf("%d", n)\<close> prints.\<close>

definition Itoa :: "int \<Rightarrow> string" where
  "Itoa n = (if n < 0 then CHR ''-'' # dec_digits (- n) else dec_digits n)"

definition is_digit :: "char \<Rightarrow> bool" where
  "is_digit c = (CHR ''0'' \<le> c \<and> c \<le> CHR ''9'')"

definition digit_val :: "char \<Rightarrow> int" where
  "digit_val c = of_char c - 48"

fun digits_val :: "int \<Rightarrow> string \<Rightarrow> int" where
  "digits_val acc [] = acc"
| "digits_val acc (c # cs) = digits_val (acc * 10 + digit_val c) cs"

definition maxInt :: int where
  "maxInt = 2 ^ 63 - 1"

definition minInt :: int where
  "minInt = - (2 ^ 63)"

text \<open>
  \<open>strconv.Atoi\<close>: an optional sign followed by at least one decimal digit, and a value
  that fits the 64-bit \<open>int\<close>; everything else is an error (\<open>None\<close>).
\<close>

definition Atoi :: "string \<Rightarrow> int option" where
  "Atoi s =
     (let (neg, body) = (case s of
                           c # cs \<Rightarrow> if c = CHR ''-'' then (True, cs)
                                     else if c = CHR ''+'' then (False, cs)
                                     else (False, s)
                         | [] \<Rightarrow> (False, s))
      in if body = [] \<or> \<not> list_all is_digit body then None
         else let v = (if neg then - digits_val 0 body else digits_val 0 body)
              in if v < minInt \<or> maxInt < v then None else Some v)"

text \<open>\<open>strings.Join\<close>.\<close>

fun Join :: "string list \<Rightarrow> string \<Rightarrow> string" where
  "Join [] sep = []"
| "Join [x] sep = x"
| "Join (x # y # ys) sep = x @ sep @ Join (y # ys) sep"

section \<open>Binary floating point (\<open>float64\<close>)\<close>

text \<open>
  Go's \<open>float64\<close> is IEEE 754 binary64, and several of the modelled functions compare
  a computed float with a constant, so the rounding of every operation is part of the
  model.  A finite float is \<open>Fin m e\<close>, denoting \<open>m * 2 ^ e\<close>; the two infinities and
  NaN are separate values.  Negative zero is identified with zero: the modelled code
  never divides by a zero and never inspects the sign of a zero.  Every arithmetic
  operation computes the exact result on integers and rounds it once, to nearest with
  ties to even, to 53 significant bits above the subnormal exponent \<open>- 1074\<close>; a rounded
  magnitude of \<open>2 ^ 1024\<close> or more is an infinity.  Operations are not fused (as on
  amd64).
\<close>

datatype f64 = Fin int int | PInf | NInf | NaN

function pow2 :: "int \<Rightarrow> int" where
  "pow2 k = (if k \<le> 0 then 1 else 2 * pow2 (k - 1))"
  by pat_completeness auto
termination
  by (relation "measure nat") auto

declare pow2.simps [simp del]

function bitlen :: "int \<Rightarrow> int" where
  "bitlen n = (if n \<le> 0 then 0 else 1 + bitlen (n div 2))"
  by pat_completeness auto
termination
  by (relation "measure nat") auto

declare bitlen.simps [simp del]

text \<open>The exponent of the leading bit of \<open>m * 2 ^ e\<close>, for \<open>m > 0\<close>.\<close>

definition top_exp :: "int \<Rightarrow> int \<Rightarrow> int" where
  "top_exp m e = e + bitlen m - 1"

text \<open>Rounding \<open>m * 2 ^ e\<close> (with \<open>m \<ge> 0\<close>) to a multiple of \<open>2 ^ u\<close>, ties to even.\<close>

definition round_at :: "int \<Rightarrow> int \<Rightarrow> int \<Rightarrow> int \<times> int" where
  "round_at m e u =
     (if u \<le> e then (m, e)
      else let q = m div pow2 (u - e); r = m mod pow2 (u - e); h = pow2 (u - e - 1)
           in (if h < r \<or> (r = h \<and> odd q) then q + 1 else q, u))"

text \<open>The canonical form of a finite float: an odd mantissa, or \<open>Fin 0 0\<close>.\<close>

function fnorm :: "int \<Rightarrow> int \<Rightarrow> f64" where
  "fnorm m e = (if m = 0 then Fin 0 0 else if even m then fnorm (m div 2) (e + 1) else Fin m e)"
  by pat_completeness auto
termination
  by (relation "measure (\<lambda>(m, e). nat \<bar>m\<bar>)") auto

declare fnorm.simps [simp del]

definition round_pos :: "int \<Rightarrow> int \<Rightarrow> f64" where
  "round_pos m e =
     (if m = 0 then Fin 0 0
      else let (q, u) = round_at m e (max (top_exp m e - 52) (- 1074))
           in if q = 0 then Fin 0 0
              else if 1024 \<le> top_exp q u then PInf
              else fnorm q u)"

fun fneg :: "f64 \<Rightarrow> f64" where
  "fneg (Fin m e) = Fin (- m) e"
| "fneg PInf = NInf"
| "fneg NInf = PInf"
| "fneg NaN = NaN"

definition rnd :: "int \<Rightarrow> int \<Rightarrow> f64" where
  "rnd m e = (if m < 0 then fneg (round_pos (- m) e) else round_pos m e)"

fun fadd :: "f64 \<Rightarrow> f64 \<Rightarrow> f64" where
  "fadd NaN y = NaN"
| "fadd x NaN = NaN"
| "fadd PInf NInf = NaN"
| "fadd NInf PInf = NaN"
| "fadd PInf y = PInf"
| "fadd NInf y = NInf"
| "fadd x PInf = PInf"
| "fadd x NInf = NInf"
| "fadd (Fin m1 e1) (Fin m2 e2) =
     (let e = min e1 e2 in rnd (m1 * pow2 (e1 - e) + m2 * pow2 (e2 - e)) e)"

definition fsub :: "f64 \<Rightarrow> f64 \<Rightarrow> f64" where
  "fsub x y = fadd x (fneg y)"

fun fsign :: "f64 \<Rightarrow> int" where
  "fsign (Fin m e) = sgn m"
| "fsign PInf = 1"
| "fsign NInf = - 1"
| "fsign NaN = 0"

definition inf_of_sign :: "int \<Rightarrow> f64" where
  "inf_of_sign s = (if s < 0 then NInf else PInf)"

fun fmul :: "f64 \<Rightarrow> f64 \<Rightarrow> f64" where
  "fmul NaN y = NaN"
| "fmul x NaN = NaN"
| "fmul (Fin m1 e1) (Fin m2 e2) = rnd (m1 * m2) (e1 + e2)"
| "fmul x y = (if fsign x * fsign y = 0 then NaN else inf_of_sign (fsign x * fsign y))"

text \<open>
  The quotient of two positive magnitudes: an integer quotient with at least 56 bits,
  and one more bit that records whether the division left a remainder.
\<close>

definition div_pos :: "int \<Rightarrow> int \<Rightarrow> int \<Rightarrow> int \<Rightarrow> f64" where
  "div_pos a e1 b e2 =
     (let k = max 0 (bitlen b + 56 - bitlen a);
          q = (a * pow2 k) div b;
          r = (a * pow2 k) mod b
      in round_pos (2 * q + (if r = 0 then 0 else 1)) (e1 - e2 - k - 1))"

fun fdiv :: "f64 \<Rightarrow> f64 \<Rightarrow> f64" where
  "fdiv NaN y = NaN"
| "fdiv x NaN = NaN"
| "fdiv (Fin m1 e1) (Fin m2 e2) =
     (if m2 = 0 then (if m1 = 0 then NaN else inf_of_sign (sgn m1))
      else if m1 = 0 then Fin 0 0
      else if sgn m1 * sgn m2 < 0 then fneg (div_pos \<bar>m1\<bar> e1 \<bar>m2\<bar> e2)
      else div_pos \<bar>m1\<bar> e1 \<bar>m2\<bar> e2)"
| "fdiv (Fin m e) y = Fin 0 0"
| "fdiv x (Fin m e) = (if m < 0 then fneg x else x)"
| "fdiv x y = NaN"

function isqrt_bits :: "int \<Rightarrow> int \<Rightarrow> int \<Rightarrow> int" where
  "isqrt_bits i n r =
     (if i < 0 then r
      else let c = r + pow2 i in isqrt_bits (i - 1) n (if c * c \<le> n then c else r))"
  by pat_completeness auto
termination
  by (relation "measure (\<lambda>(i, n, r). nat (i + 1))") auto

declare isqrt_bits.simps [simp del]

definition isqrt :: "int \<Rightarrow> int" where
  "isqrt n = isqrt_bits (bitlen n) n 0"

text \<open>\<open>math.Sqrt\<close>.\<close>

fun fsqrt :: "f64 \<Rightarrow> f64" where
  "fsqrt NaN = NaN"
| "fsqrt PInf = PInf"
| "fsqrt NInf = NaN"
| "fsqrt (Fin m e) =
     (if m < 0 then NaN
      else if m = 0 then Fin 0 0
      else let k0 = max 0 (112 - bitlen m);
               k = (if even (e - k0) then k0 else k0 + 1);
               n = m * pow2 k;
               s = isqrt n
           in round_pos (2 * s + (if s * s = n then 0 else 1)) ((e - k) div 2 - 1))"

text \<open>
  \<open>math.Pow(x, 2)\<close>.  For a finite non-zero \<open>x\<close> the library squares the 53-bit
  fraction of \<open>x\<close> (one rounding to 53 bits) and scales the product with \<open>Ldexp\<close>, which
  rounds once more where the result is subnormal and overflows to an infinity.
\<close>

fun fpow2 :: "f64 \<Rightarrow> f64" where
  "fpow2 NaN = NaN"
| "fpow2 PInf = PInf"
| "fpow2 NInf = PInf"
| "fpow2 (Fin m e) =
     (if m = 0 then Fin 0 0
      else let (q, u) = round_at (m * m) (2 * e) (top_exp (m * m) (2 * e) - 52)
           in round_pos q u)"

text \<open>The comparisons \<open><\<close>, \<open>==\<close>, \<open><=\<close>, \<open>>\<close>, \<open>>=\<close>; all are false on NaN.\<close>

fun flt :: "f64 \<Rightarrow> f64 \<Rightarrow> bool" where
  "flt NaN y = False"
| "flt x NaN = False"
| "flt (Fin m1 e1) (Fin m2 e2) =
     (let e = min e1 e2 in m1 * pow2 (e1 - e) < m2 * pow2 (e2 - e))"
| "flt x NInf = False"
| "flt NInf y = True"
| "flt PInf y = False"
| "flt x PInf = True"

fun feq :: "f64 \<Rightarrow> f64 \<Rightarrow> bool" where
  "feq NaN y = False"
| "feq x NaN = False"
| "feq (Fin m1 e1) (Fin m2 e2) =
     (let e = min e1 e2 in m1 * pow2 (e1 - e) = m2 * pow2 (e2 - e))"
| "feq PInf PInf = True"
| "feq NInf NInf = True"
| "feq x y = False"

definition fle :: "f64 \<Rightarrow> f64 \<Rightarrow> bool" where
  "fle x y = (flt x y \<or> feq x y)"

definition fgt :: "f64 \<Rightarrow> f64 \<Rightarrow> bool" where
  "fgt x y = flt y x"

definition fge :: "f64 \<Rightarrow> f64 \<Rightarrow> bool" where
  "fge x y = fle y x"

text \<open>The conversion \<open>float64(n)\<close> of an integer, and a decimal constant \<open>n / d\<close>.\<close>

definition of_int64 :: "int \<Rightarrow> f64" where
  "of_int64 n = rnd n 0"

definition flit :: "int \<Rightarrow> int \<Rightarrow> f64" where
  "flit n d = fdiv (Fin n 0) (Fin d 0)"

definition fzero :: f64 where
  "fzero = Fin 0 0"

text \<open>\<open>math.Abs\<close>.\<close>

fun fabs :: "f64 \<Rightarrow> f64" where
  "fabs (Fin m e) = Fin \<bar>m\<bar> e"
| "fabs PInf = PInf"
| "fabs NInf = PInf"
| "fabs NaN = NaN"

text \<open>\<open>math.Round\<close>: to the nearest integer, halves away from zero.\<close>

fun fround :: "f64 \<Rightarrow> f64" where
  "fround (Fin m e) =
     (if 0 \<le> e then Fin m e
      else let q = \<bar>m\<bar> div pow2 (- e); r = \<bar>m\<bar> mod pow2 (- e)
           in rnd (sgn m * (if pow2 (- e) \<le> 2 * r then q + 1 else q)) 0)"
| "fround x = x"

text \<open>
  The conversion \<open>int(x)\<close>: the fraction is discarded (truncation towards zero).  For
  NaN, an infinity or a value outside the 64-bit range the language leaves the result
  to the implementation; the model takes the value amd64 produces, the minimum integer.
\<close>

fun to_int :: "f64 \<Rightarrow> int" where
  "to_int (Fin m e) =
     (let v = (if 0 \<le> e then m * pow2 e else sgn m * (\<bar>m\<bar> div pow2 (- e)))
      in if v < minInt \<or> maxInt < v then minInt else v)"
| "to_int x = minInt"

fun isNaN :: "f64 \<Rightarrow> bool" where
  "isNaN NaN = True"
| "isNaN x = False"

section \<open>Time and strings\<close>

text \<open>
  A \<open>time.Time\<close> is modelled by its instant: the number of nanoseconds since the zero
  time (January 1 of year 1, 00:00:00 UTC), so that \<open>IsZero\<close> is equality with 0,
  \<open>Before\<close> is \<open><\<close> and \<open>Add\<close> is addition of a duration in nanoseconds.
\<close>

type_synonym Time = int

definition IsZero :: "Time \<Rightarrow> bool" where
  "IsZero t = (t = 0)"

definition Before :: "Time \<Rightarrow> Time \<Rightarrow> bool" where
  "Before t u = (t < u)"

definition Add :: "Time \<Rightarrow> int \<Rightarrow> Time" where
  "Add t d = t + d"

definition Millisecond :: int where
  "Millisecond = 1000000"

definition Second :: int where
  "Second = 1000000000"

text \<open>\<open>Time.UnixNano\<close>: nanoseconds since January 1, 1970 UTC.\<close>

definition UnixNano :: "Time \<Rightarrow> int" where
  "UnixNano t = t - 62135596800 * Second"

text \<open>Go's integer division and remainder truncate towards zero.\<close>

definition tdiv :: "int \<Rightarrow> int \<Rightarrow> int" where
  "tdiv a b = sgn a * sgn b * (\<bar>a\<bar> div \<bar>b\<bar>)"

definition tmod :: "int \<Rightarrow> int \<Rightarrow> int" where
  "tmod a b = a - b * tdiv a b"

text \<open>\<open>Duration.Seconds\<close>.\<close>

definition Seconds :: "int \<Rightarrow> f64" where
  "Seconds d = fadd (of_int64 (tdiv d Second)) (fdiv (of_int64 (tmod d Second)) (Fin 1000000000 0))"

text \<open>
  A rune is a Unicode code point.  \<open>utf8.DecodeRuneInString\<close> gives the first rune of a
  string and its width in bytes: a byte below \<open>0x80\<close> is itself, a well-formed encoding
  of two to four bytes is the code point it encodes, and a byte that does not start a
  well-formed encoding is \<open>RuneError\<close> with width 1.  The second byte of an encoding is
  confined to the range that excludes the over-long forms, the surrogates and the code
  points above \<open>U+10FFFF\<close>.
\<close>

type_synonym rune = int

definition RuneError :: rune where
  "RuneError = 65533"

fun DecodeRuneInString :: "string \<Rightarrow> rune \<times> nat" where
  "DecodeRuneInString [] = (RuneError, 0)"
| "DecodeRuneInString (c0 # cs) =
     (let s0 = (of_char c0 :: int)
      in if s0 < 128 then (s0, 1)
         else if s0 < 194 \<or> 245 \<le> s0 then (RuneError, 1)
         else let sz = (if s0 < 224 then 2 else if s0 < 240 then 3 else (4 :: nat));
                  lo = (if s0 = 224 then 160 else if s0 = 240 then 144 else 128);
                  hi = (if s0 = 237 then 159 else if s0 = 244 then 143 else 191)
              in if Suc (length cs) < sz then (RuneError, 1)
                 else let s1 = (of_char (cs ! 0) :: int)
                      in if s1 < lo \<or> hi < s1 then (RuneError, 1)
                         else if sz \<le> 2 then ((s0 mod 32) * 64 + s1 mod 64, 2)
                         else let s2 = (of_char (cs ! 1) :: int)
                              in if s2 < 128 \<or> 191 < s2 then (RuneError, 1)
                                 else if sz \<le> 3
                                 then ((s0 mod 16) * 4096 + (s1 mod 64) * 64 + s2 mod 64, 3)
                                 else let s3 = (of_char (cs ! 2) :: int)
                                      in if s3 < 128 \<or> 191 < s3 then (RuneError, 1)
                                         else ((s0 mod 8) * 262144 + (s1 mod 64) * 4096
                                               + (s2 mod 64) * 64 + s3 mod 64, 4))"

text \<open>The runes of a string, as a \<open>range\<close> loop over the string yields them.\<close>

function runes :: "string \<Rightarrow> rune list" where
  "runes [] = []"
| "runes (c0 # cs) =
     (let (r, width) = DecodeRuneInString (c0 # cs) in r # runes (drop (width - 1) cs))"
  by pat_completeness auto
termination
  by (relation "measure length") auto

text \<open>
  \<open>strings.EqualFold\<close> reads its arguments as UTF-8 and reports whether they are equal
  under simple Unicode case folding: they have as many runes, and rune by rune the two
  runes are equal or in the same folding orbit (\<open>K\<close>, \<open>k\<close> and the Kelvin sign form
  one).  The orbits are those of the tables of package \<open>unicode\<close>, which
  \<open>unicode.SimpleFold\<close> walks.  They are a parameter of the model: \<open>orbit\<close> sends a rune
  to the representative of its orbit.
\<close>

definition EqualFold :: "(rune \<Rightarrow> rune) \<Rightarrow> string \<Rightarrow> string \<Rightarrow> bool" where
  "EqualFold orbit s t = (map orbit (runes s) = map orbit (runes t))"

text \<open>
  A stable insertion sort by a ``less'' predicate.  It stands for \<open>sort.SliceStable\<close>,
  and for \<open>sort.Float64s\<close>, where elements that compare equal are the same number.
\<close>

fun insert_by :: "('a \<Rightarrow> 'a \<Rightarrow> bool) \<Rightarrow> 'a \<Rightarrow> 'a list \<Rightarrow> 'a list" where
  "insert_by lt x [] = [x]"
| "insert_by lt x (y # ys) = (if lt y x then y # insert_by lt x ys else x # y # ys)"

definition sort_by :: "('a \<Rightarrow> 'a \<Rightarrow> bool) \<Rightarrow> 'a list \<Rightarrow> 'a list" where
  "sort_by lt xs = foldr (insert_by lt) xs []"

text \<open>
  \<open>sort.Slice\<close> sorts by \<open>less\<close> and does not promise to keep elements that compare equal
  in their order.  In the library of Go 1.23 (the version that \<open>go.mod\<close> names) a slice
  of at most 12 elements is sorted by insertion, which keeps them in their order; on a
  longer slice their order comes out of a pattern-defeating quicksort.  That order is a
  parameter of the model: \<open>tie xs a b\<close> says that on the slice \<open>xs\<close>, of two elements
  \<open>a\<close> and \<open>b\<close> that compare equal, \<open>a\<close> is put first.  For a \<open>less\<close> that orders by a
  key (as the comparisons of times, and of call rates that are not NaN, do) the result
  is, whatever \<open>tie\<close> is, a permutation of the slice that is sorted by \<open>less\<close>; and every
  such permutation of a longer slice is the result for some \<open>tie\<close>.
\<close>

definition sort_Slice :: "('a list \<Rightarrow> 'a \<Rightarrow> 'a \<Rightarrow> bool) \<Rightarrow> ('a \<Rightarrow> 'a \<Rightarrow> bool) \<Rightarrow> 'a list \<Rightarrow> 'a list" where
  "sort_Slice tie lt xs =
     (if length xs \<le> 12 then sort_by lt xs
      else sort_by (\<lambda>a b. lt a b \<or> (\<not> lt b a \<and> tie xs a b)) xs)"

section \<open>Data model\<close>

datatype DataType = DataTypeMetrics | DataTypeLogs | DataTypeTraces

datatype Severity = SeverityLow | SeverityMedium | SeverityHigh | SeverityCritical

record MetricPoint =
  mp_Timestamp :: Time
  mp_Value :: f64

record LogEntry =
  le_Timestamp :: Time
  le_Message :: string
  le_Severity :: string
  le_Count :: int

record TraceSpan =
  TraceID :: string
  SpanID :: string
  ts_Service :: string
  Operation :: string
  Duration :: int
  Status :: string
  ts_Timestamp :: Time

record ServiceGraphEdge =
  Source :: string
  Target :: string
  CallRate :: f64
  ErrorRate :: f64

record MetricAnomaly =
  ma_Timestamp :: Time
  ma_Value :: f64
  ma_Score :: f64
  ma_Threshold :: f64

record LogAnomaly =
  la_Timestamp :: Time
  la_Severity :: string
  la_Count :: int
  la_Score :: f64

record TraceAnomaly =
  Span :: TraceSpan
  ta_Score :: f64
  Median :: f64

record RedAnchor =
  ra_Service :: string
  Selector :: string
  ra_DataType :: DataType
  ra_Timestamp :: Time
  ra_AnomalyScore :: f64
  ra_Threshold :: f64

record TimelineEvent =
  Time :: Time
  Event :: string
  Service :: string
  Severity :: Severity
  AnomalyScore :: f64
  DataSource :: DataType

record CorrelationResult =
  CorrelationID :: string
  IncidentID :: string
  RootCause :: string
  Confidence :: f64
  AffectedServices :: "string list"
  RedAnchors :: "RedAnchor list"
  Timeline :: "TimelineEvent list"
  Recommendations :: "string list"
  CreatedAt :: Time

record TimeRange =
  Start :: Time
  End :: Time

record InvestigationRequest =
  ir_IncidentID :: string
  Symptoms :: "string list"
  TimeRange :: TimeRange
  ir_AffectedServices :: "string list"
  AnomalyThreshold :: f64
  TenantID :: string

section \<open>Anomaly extractors\<close>

subsection \<open>Metrics (\<open>MetricExtractor\<close>)\<close>

definition MetricExtractor_Detect :: "MetricPoint list \<Rightarrow> f64 \<Rightarrow> MetricAnomaly list" where
  "MetricExtractor_Detect series threshold0 =
     (if series = [] then []
      else let threshold = (if fle threshold0 fzero then flit 25 10 else threshold0);
               n = of_int64 (int (length series));
               mu = fdiv (foldl (\<lambda>acc point. fadd acc (mp_Value point)) fzero series) n;
               variance = fdiv (foldl (\<lambda>acc point. fadd acc (fpow2 (fsub (mp_Value point) mu))) fzero series) n;
               stdDev0 = fsqrt variance;
               sigma = (if feq stdDev0 fzero then flit 1 100 else stdDev0)
           in concat (map (\<lambda>point.
                 let score = fdiv (fsub (mp_Value point) mu) sigma
                 in if fge score threshold
                    then [\<lparr>ma_Timestamp = mp_Timestamp point, ma_Value = mp_Value point,
                           ma_Score = score, ma_Threshold = threshold\<rparr>]
                    else []) series))"

subsection \<open>Logs (\<open>LogsExtractor\<close>)\<close>

text \<open>The order of \<open>sort.Float64s\<close>: NaN before every number.\<close>

definition float64_less :: "f64 \<Rightarrow> f64 \<Rightarrow> bool" where
  "float64_less x y = (flt x y \<or> (isNaN x \<and> \<not> isNaN y))"

definition percentile :: "f64 list \<Rightarrow> f64 \<Rightarrow> f64" where
  "percentile vals p =
     (if vals = [] then fzero
      else let sorted = sort_by float64_less vals;
               idx0 = to_int (fround (fmul p (of_int64 (int (length sorted) - 1))));
               idx1 = (if idx0 < 0 then 0 else idx0);
               idx = (if int (length sorted) \<le> idx1 then int (length sorted) - 1 else idx1)
           in sorted ! nat idx)"

definition meanAbsoluteDeviation :: "f64 list \<Rightarrow> f64 \<Rightarrow> f64" where
  "meanAbsoluteDeviation vals center =
     (if vals = [] then fzero
      else fdiv (foldl (\<lambda>sum v. fadd sum (fabs (fsub v center))) fzero vals)
                (of_int64 (int (length vals))))"

definition LogsExtractor_Detect :: "(rune \<Rightarrow> rune) \<Rightarrow> LogEntry list \<Rightarrow> LogAnomaly list" where
  "LogsExtractor_Detect orbit entries =
     (if entries = [] then []
      else let counts = map (\<lambda>entry. of_int64 (le_Count entry)) entries;
               median = percentile counts (flit 5 10);
               mad0 = meanAbsoluteDeviation counts median;
               mad = (if feq mad0 fzero then Fin 1 0 else mad0)
           in concat (map (\<lambda>entry.
                 let score = fdiv (fabs (fsub (of_int64 (le_Count entry)) median)) mad
                 in if fge score (Fin 3 0)
                    then [\<lparr>la_Timestamp = le_Timestamp entry, la_Severity = le_Severity entry,
                           la_Count = le_Count entry, la_Score = score\<rparr>]
                    else if EqualFold orbit (le_Severity entry) ''error''
                            \<and> le_Count entry > to_int (fmul median (flit 13 10))
                    then [\<lparr>la_Timestamp = le_Timestamp entry, la_Severity = le_Severity entry,
                           la_Count = le_Count entry, la_Score = Fin 3 0\<rparr>]
                    else []) entries))"

subsection \<open>Traces (\<open>TracesExtractor\<close>)\<close>

record TracesExtractor =
  threshold :: f64

definition NewTracesExtractor :: TracesExtractor where
  "NewTracesExtractor = \<lparr>threshold = Fin 2 0\<rparr>"

definition mean :: "f64 list \<Rightarrow> f64" where
  "mean vals = fdiv (foldl fadd fzero vals) (of_int64 (int (length vals)))"

definition stdDev :: "f64 list \<Rightarrow> f64 \<Rightarrow> f64" where
  "stdDev vals mu =
     fsqrt (fdiv (foldl (\<lambda>sum v. let diff = fsub v mu in fadd sum (fmul diff diff)) fzero vals)
                 (of_int64 (int (length vals))))"

definition TracesExtractor_Detect :: "TracesExtractor \<Rightarrow> TraceSpan list \<Rightarrow> TraceAnomaly list" where
  "TracesExtractor_Detect e spans =
     (if spans = [] then []
      else let durations = map (\<lambda>span. Seconds (Duration span)) spans;
               mu = mean durations;
               std0 = stdDev durations mu;
               std = (if feq std0 fzero then flit 1 100 else std0)
           in concat (map (\<lambda>span.
                 let score = fdiv (fsub (Seconds (Duration span)) mu) std
                 in if fge score (threshold e) \<or> Status span = ''error''
                    then [\<lparr>Span = span, ta_Score = score, Median = mu\<rparr>]
                    else []) spans))"

section \<open>Causality engine (package \<open>engine\<close>, \<open>causality.go\<close>)\<close>

record CausalityResult =
  Score :: f64
  Notes :: "string list"
  SuggestedService :: string

definition suggestedEdgeSet :: "ServiceGraphEdge \<Rightarrow> bool" where
  "suggestedEdgeSet edge = (Source edge \<noteq> [] \<or> Target edge \<noteq> [])"

fun rootEventTime :: "(rune \<Rightarrow> rune) \<Rightarrow> string \<Rightarrow> TimelineEvent list \<Rightarrow> Time" where
  "rootEventTime orbit service [] = 0"
| "rootEventTime orbit service (event # events) =
     (if EqualFold orbit (Service event) service then Time event
      else rootEventTime orbit service events)"

fun firstEventTime :: "(rune \<Rightarrow> rune) \<Rightarrow> string \<Rightarrow> TimelineEvent list \<Rightarrow> Time" where
  "firstEventTime orbit service [] = 0"
| "firstEventTime orbit service (event # events) =
     (if EqualFold orbit (Service event) service then Time event
      else firstEventTime orbit service events)"

definition clamp :: "f64 \<Rightarrow> f64 \<Rightarrow> f64 \<Rightarrow> f64" where
  "clamp v lo hi = (if flt v lo then lo else if fgt v hi then hi else v)"

text \<open>The locals of \<open>Evaluate\<close> that its loop over the edges updates.\<close>

record eval_state =
  totalUpstream :: int
  supporting :: int
  resultNotes :: "string list"
  suggested :: ServiceGraphEdge

definition no_edge :: ServiceGraphEdge where
  "no_edge = \<lparr>Source = [], Target = [], CallRate = fzero, ErrorRate = fzero\<rparr>"

text \<open>One iteration of the loop of \<open>Evaluate\<close>.\<close>

definition Evaluate_edge ::
  "(rune \<Rightarrow> rune) \<Rightarrow> string \<Rightarrow> TimelineEvent list \<Rightarrow> Time \<Rightarrow> eval_state \<Rightarrow> ServiceGraphEdge \<Rightarrow>
   eval_state" where
  "Evaluate_edge orbit rootService timeline rootTime st edge =
     (if \<not> EqualFold orbit (Target edge) rootService then st
      else let st1 = st\<lparr>totalUpstream := totalUpstream st + 1\<rparr>;
               srcTime = firstEventTime orbit (Source edge) timeline
           in if IsZero srcTime
              then (if fgt (ErrorRate edge) fzero
                    then st1\<lparr>supporting := supporting st1 + 1,
                             resultNotes := resultNotes st1 @ [Source edge @ '' error rate influencing '' @ rootService],
                             suggested := (if \<not> suggestedEdgeSet (suggested st1)
                                               \<or> fgt (ErrorRate edge) (ErrorRate (suggested st1))
                                           then edge else suggested st1)\<rparr>
                    else st1)
              else if Before srcTime rootTime
              then st1\<lparr>supporting := supporting st1 + 1,
                       resultNotes := resultNotes st1 @ [Source edge @ '' precedes '' @ rootService],
                       suggested := (if \<not> suggestedEdgeSet (suggested st1)
                                         \<or> fgt (CallRate edge) (CallRate (suggested st1))
                                     then edge else suggested st1)\<rparr>
              else st1\<lparr>resultNotes := resultNotes st1 @ [Source edge @ '' occurs after root cause'']\<rparr>)"

definition Evaluate_rootTime :: "(rune \<Rightarrow> rune) \<Rightarrow> string \<Rightarrow> TimelineEvent list \<Rightarrow> Time" where
  "Evaluate_rootTime orbit rootService timeline =
     (let rootTime = rootEventTime orbit rootService timeline
      in if IsZero rootTime then Time (hd timeline) else rootTime)"

definition Evaluate_loop ::
  "(rune \<Rightarrow> rune) \<Rightarrow> string \<Rightarrow> TimelineEvent list \<Rightarrow> ServiceGraphEdge list \<Rightarrow> eval_state" where
  "Evaluate_loop orbit rootService timeline edges =
     foldl (Evaluate_edge orbit rootService timeline (Evaluate_rootTime orbit rootService timeline))
       \<lparr>totalUpstream = 0, supporting = 0, resultNotes = [], suggested = no_edge\<rparr> edges"

definition Evaluate ::
  "(rune \<Rightarrow> rune) \<Rightarrow> string \<Rightarrow> TimelineEvent list \<Rightarrow> ServiceGraphEdge list \<Rightarrow> CausalityResult" where
  "Evaluate orbit rootService timeline edges =
     (if rootService = [] \<or> edges = [] \<or> timeline = []
      then \<lparr>Score = fzero, Notes = [], SuggestedService = []\<rparr>
      else let st = Evaluate_loop orbit rootService timeline edges
           in if totalUpstream st = 0
              then \<lparr>Score = fzero, Notes = resultNotes st, SuggestedService = []\<rparr>
              else let score0 = fdiv (of_int64 (supporting st)) (of_int64 (totalUpstream st));
                       score1 = (if flt score0 fzero then fzero else score0);
                       score = (if fgt score1 (Fin 1 0) then Fin 1 0 else score1)
                   in \<lparr>Score = clamp (fadd (flit 4 10) (fmul (flit 6 10) score)) fzero (Fin 1 0),
                       Notes = resultNotes st,
                       SuggestedService = (if suggestedEdgeSet (suggested st)
                                           then Source (suggested st) else [])\<rparr>)"

text \<open>
  The two kinds of supporting edge, by the branch of the loop that counts them: an
  upstream edge whose source has no event time in the timeline (\<open>firstEventTime\<close> is the
  zero time) and whose error rate is positive, and an upstream edge whose source has an
  event time that is before the root time.
\<close>

definition error_supporting ::
  "(rune \<Rightarrow> rune) \<Rightarrow> string \<Rightarrow> TimelineEvent list \<Rightarrow> ServiceGraphEdge \<Rightarrow> bool" where
  "error_supporting orbit rootService timeline edge =
     (EqualFold orbit (Target edge) rootService
      \<and> IsZero (firstEventTime orbit (Source edge) timeline)
      \<and> fgt (ErrorRate edge) fzero)"

definition time_supporting ::
  "(rune \<Rightarrow> rune) \<Rightarrow> string \<Rightarrow> TimelineEvent list \<Rightarrow> ServiceGraphEdge \<Rightarrow> bool" where
  "time_supporting orbit rootService timeline edge =
     (EqualFold orbit (Target edge) rootService
      \<and> \<not> IsZero (firstEventTime orbit (Source edge) timeline)
      \<and> Before (firstEventTime orbit (Source edge) timeline)
               (Evaluate_rootTime orbit rootService timeline))"

text \<open>
  The selection as a running best over the edges in their order, kept as an optional
  edge: a supporting edge of the first kind replaces the best when there is none or
  when its error rate is above the error rate of the best, one of the second kind when
  there is none or when its call rate is above the call rate of the best.  To be
  compared with the local \<open>suggested\<close> of \<open>Evaluate\<close>.
\<close>

definition running_best_step ::
  "(rune \<Rightarrow> rune) \<Rightarrow> string \<Rightarrow> TimelineEvent list \<Rightarrow> ServiceGraphEdge option \<Rightarrow> ServiceGraphEdge \<Rightarrow>
   ServiceGraphEdge option" where
  "running_best_step orbit rootService timeline best edge =
     (if error_supporting orbit rootService timeline edge
      then (case best of
              None \<Rightarrow> Some edge
            | Some b \<Rightarrow> if fgt (ErrorRate edge) (ErrorRate b) then Some edge else Some b)
      else if time_supporting orbit rootService timeline edge
      then (case best of
              None \<Rightarrow> Some edge
            | Some b \<Rightarrow> if fgt (CallRate edge) (CallRate b) then Some edge else Some b)
      else best)"

definition running_best ::
  "(rune \<Rightarrow> rune) \<Rightarrow> string \<Rightarrow> TimelineEvent list \<Rightarrow> ServiceGraphEdge list \<Rightarrow> ServiceGraphEdge option" where
  "running_best orbit rootService timeline edges =
     (if rootService = [] \<or> timeline = [] then None
      else foldl (running_best_step orbit rootService timeline) None edges)"

section \<open>Pipeline (package \<open>engine\<close>, \<open>pipeline.go\<close>)\<close>

text \<open>
  Errors are values: \<open>ErrorString\<close> is an error made from a message, and
  \<open>Wrapped msg err\<close> is \<open>fmt.Errorf("msg: %w", err)\<close>.
\<close>

datatype error = ErrorString string | Wrapped string error

text \<open>
  The two interfaces of the pipeline.  Each method is a function of its arguments (the
  context is left out) that returns what the Go method returns: a value and an error,
  where \<open>None\<close> is the \<open>nil\<close> error.
\<close>

record CoreClient =
  FetchMetricSeries :: "string \<Rightarrow> string \<Rightarrow> Time \<Rightarrow> Time \<Rightarrow> MetricPoint list \<times> error option"
  FetchLogEntries :: "string \<Rightarrow> string \<Rightarrow> Time \<Rightarrow> Time \<Rightarrow> LogEntry list \<times> error option"
  FetchTraceSpans :: "string \<Rightarrow> string \<Rightarrow> Time \<Rightarrow> Time \<Rightarrow> TraceSpan list \<times> error option"
  FetchServiceGraph :: "string \<Rightarrow> Time \<Rightarrow> Time \<Rightarrow> ServiceGraphEdge list \<times> error option"

record WeaviateClient =
  SimilarIncidents :: "string \<Rightarrow> string list \<Rightarrow> int \<Rightarrow> CorrelationResult list \<times> error option"
  StoreCorrelation :: "string \<Rightarrow> CorrelationResult \<Rightarrow> error option"

text \<open>
  The rule engine enters the pipeline through its method \<open>Recommend\<close> only, and the
  causality engine has no state but its logger.
\<close>

type_synonym RuleEngine = "InvestigationRequest \<Rightarrow> RedAnchor list \<Rightarrow> TimelineEvent list \<Rightarrow> string list"

datatype CausalityEngine = CausalityEngine

text \<open>
  A pipeline as \<open>NewPipeline\<close> returns it: the three extractors are never \<open>nil\<close> (the
  metric and log extractors have no fields), every other component may be.
\<close>

record Pipeline =
  coreClient :: "CoreClient option"
  tracesExtractor :: TracesExtractor
  weaviate :: "WeaviateClient option"
  rulesEngine :: "RuleEngine option"
  causalityEngine :: "CausalityEngine option"

text \<open>
  What the run-time system and the library decide: \<open>now i\<close> is the reading of the clock
  at the \<open>i\<close>-th call of \<open>time.Now\<close> in \<open>Investigate\<close> (in the order of the source text),
  \<open>mapRange\<close> is the order in which a \<open>range\<close> loop visits the keys of a map,
  \<open>caseOrbit\<close> gives the folding orbits of \<open>strings.EqualFold\<close>, and \<open>eventOrder\<close> and
  \<open>edgeOrder\<close> give the order that \<open>sort.Slice\<close> makes of equal elements in a long slice
  of timeline events and of edges.
\<close>

record Runtime =
  now :: "nat \<Rightarrow> Time"
  mapRange :: "string list \<Rightarrow> string list"
  caseOrbit :: "rune \<Rightarrow> rune"
  eventOrder :: "TimelineEvent list \<Rightarrow> TimelineEvent \<Rightarrow> TimelineEvent \<Rightarrow> bool"
  edgeOrder :: "ServiceGraphEdge list \<Rightarrow> ServiceGraphEdge \<Rightarrow> ServiceGraphEdge \<Rightarrow> bool"

definition buildAnchors ::
  "string \<Rightarrow> MetricAnomaly list \<Rightarrow> LogAnomaly list \<Rightarrow> TraceAnomaly list \<Rightarrow> RedAnchor list" where
  "buildAnchors service metricAnoms logAnoms traceAnoms =
     (let anchors =
            map (\<lambda>m. \<lparr>ra_Service = service, Selector = ''metrics:cpu_usage'',
                       ra_DataType = DataTypeMetrics, ra_Timestamp = ma_Timestamp m,
                       ra_AnomalyScore = ma_Score m, ra_Threshold = ma_Threshold m\<rparr>) metricAnoms
          @ map (\<lambda>l. \<lparr>ra_Service = service, Selector = ''logs:'' @ la_Severity l,
                       ra_DataType = DataTypeLogs, ra_Timestamp = la_Timestamp l,
                       ra_AnomalyScore = la_Score l, ra_Threshold = Fin 3 0\<rparr>) logAnoms
          @ map (\<lambda>t. \<lparr>ra_Service = ts_Service (Span t), Selector = ''trace:'' @ Operation (Span t),
                       ra_DataType = DataTypeTraces, ra_Timestamp = ts_Timestamp (Span t),
                       ra_AnomalyScore = ta_Score t, ra_Threshold = Fin 2 0\<rparr>) traceAnoms;
          sorted = sort_by (\<lambda>a b. fgt (ra_AnomalyScore a) (ra_AnomalyScore b)) anchors
      in if length sorted > 5 then take 5 sorted else sorted)"

definition severityFromScore :: "f64 \<Rightarrow> Severity" where
  "severityFromScore score =
     (if fge score (Fin 4 0) then SeverityCritical
      else if fge score (Fin 3 0) then SeverityHigh
      else if fge score (Fin 2 0) then SeverityMedium
      else SeverityLow)"

definition buildTimeline ::
  "Runtime \<Rightarrow> MetricAnomaly list \<Rightarrow> LogAnomaly list \<Rightarrow> TraceAnomaly list \<Rightarrow> TimelineEvent list" where
  "buildTimeline rt metricAnoms logAnoms traceAnoms =
     (let timeline =
            map (\<lambda>m. \<lparr>Time = ma_Timestamp m, Event = ''Metric anomaly detected'', Service = [],
                       Severity = severityFromScore (ma_Score m), AnomalyScore = ma_Score m,
                       DataSource = DataTypeMetrics\<rparr>) metricAnoms
          @ map (\<lambda>l. \<lparr>Time = la_Timestamp l, Event = ''Log spike ('' @ la_Severity l @ '')'',
                       Service = [], Severity = severityFromScore (la_Score l),
                       AnomalyScore = la_Score l, DataSource = DataTypeLogs\<rparr>) logAnoms
          @ map (\<lambda>t. \<lparr>Time = ts_Timestamp (Span t), Event = ''Slow span: '' @ Operation (Span t),
                       Service = ts_Service (Span t),
                       Severity = (if Status (Span t) = ''error'' then SeverityHigh
                                   else severityFromScore (ta_Score t)),
                       AnomalyScore = ta_Score t, DataSource = DataTypeTraces\<rparr>) traceAnoms;
          sorted = sort_Slice (eventOrder rt) (\<lambda>a b. Before (Time a) (Time b)) timeline
      in if length sorted > 10 then take 10 sorted else sorted)"

definition maxMetricScore :: "MetricAnomaly list \<Rightarrow> f64" where
  "maxMetricScore anoms = foldl (\<lambda>mx a. if fgt (ma_Score a) mx then ma_Score a else mx) fzero anoms"

definition maxLogScore :: "LogAnomaly list \<Rightarrow> f64" where
  "maxLogScore anoms = foldl (\<lambda>mx a. if fgt (la_Score a) mx then la_Score a else mx) fzero anoms"

definition maxTraceScore :: "TraceAnomaly list \<Rightarrow> f64" where
  "maxTraceScore anoms = foldl (\<lambda>mx a. if fgt (ta_Score a) mx then ta_Score a else mx) fzero anoms"

definition computeConfidence ::
  "MetricAnomaly list \<Rightarrow> LogAnomaly list \<Rightarrow> TraceAnomaly list \<Rightarrow> f64" where
  "computeConfidence metricAnoms logAnoms traceAnoms =
     (let c0 = fzero;
          c1 = (if metricAnoms \<noteq> []
                then fadd c0 (fadd (flit 25 100) (clamp (fdiv (maxMetricScore metricAnoms) (Fin 8 0)) fzero (flit 25 100)))
                else c0);
          c2 = (if logAnoms \<noteq> []
                then fadd c1 (fadd (flit 25 100) (clamp (fdiv (maxLogScore logAnoms) (Fin 6 0)) fzero (flit 2 10)))
                else c1);
          c3 = (if traceAnoms \<noteq> []
                then fadd c2 (fadd (flit 25 100) (clamp (fdiv (maxTraceScore traceAnoms) (Fin 6 0)) fzero (flit 2 10)))
                else c2)
      in if fgt c3 (Fin 1 0) then Fin 1 0 else c3)"

definition calibrateConfidence :: "f64 \<Rightarrow> f64 \<Rightarrow> f64" where
  "calibrateConfidence base0 causality =
     (let base = clamp base0 fzero (Fin 1 0)
      in if fle causality fzero then clamp (fmul base (flit 7 10)) fzero (Fin 1 0)
         else clamp (fadd (fmul base (flit 6 10)) (fmul causality (flit 4 10))) fzero (Fin 1 0))"

definition defaultRecommendations :: "string list" where
  "defaultRecommendations =
     [''Review recent deployments for regressions'',
      ''Check upstream dependencies for correlated errors'']"

definition recommendFromRules ::
  "Pipeline \<Rightarrow> InvestigationRequest \<Rightarrow> RedAnchor list \<Rightarrow> TimelineEvent list \<Rightarrow> string list" where
  "recommendFromRules p req anchors timeline =
     (case rulesEngine p of
        Some Recommend \<Rightarrow>
          (let recs = Recommend req anchors timeline
           in if recs \<noteq> [] then recs else defaultRecommendations)
      | None \<Rightarrow> defaultRecommendations)"

definition fetchRecommendations ::
  "Pipeline \<Rightarrow> InvestigationRequest \<Rightarrow> RedAnchor list \<Rightarrow> TimelineEvent list \<Rightarrow> string list" where
  "fetchRecommendations p req anchors timeline =
     (case weaviate p of
        None \<Rightarrow> recommendFromRules p req anchors timeline
      | Some w \<Rightarrow>
          (let (results, err) = SimilarIncidents w (TenantID req) (Symptoms req) 3
           in if err \<noteq> None \<or> results = [] then recommendFromRules p req anchors timeline
              else let recs = Recommendations (hd results)
                   in if recs = [] then recommendFromRules p req anchors timeline else recs))"

definition deriveRootCause :: "string \<Rightarrow> RedAnchor list \<Rightarrow> string" where
  "deriveRootCause service anchors =
     (case anchors of
        [] \<Rightarrow> service @ '': no dominant anchor''
      | a # _ \<Rightarrow> ra_Service a @ '': '' @ Selector a @ '' anomaly'')"

fun firstNonEmpty :: "string list \<Rightarrow> string" where
  "firstNonEmpty [] = []"
| "firstNonEmpty (v # vs) = (if v \<noteq> [] then v else firstNonEmpty vs)"

text \<open>
  \<open>neighborServices\<close> collects the neighbours as the keys of a map and returns them in
  the order in which \<open>range\<close> visits the map.
\<close>

definition neighborServices :: "Runtime \<Rightarrow> ServiceGraphEdge list \<Rightarrow> string \<Rightarrow> string list" where
  "neighborServices rt edges service =
     mapRange rt (remdups (concat (map (\<lambda>edge.
        (if Source edge = service then [Target edge] else [])
      @ (if Target edge = service then [Source edge] else [])) edges)))"

text \<open>\<open>fmt.Sprintf("%.2f", x)\<close>: the exact value, rounded to hundredths, ties to even.\<close>

definition two_digits :: "int \<Rightarrow> string" where
  "two_digits n = [digit_char (n div 10), digit_char (n mod 10)]"

fun format_f2 :: "f64 \<Rightarrow> string" where
  "format_f2 NaN = ''NaN''"
| "format_f2 PInf = ''+Inf''"
| "format_f2 NInf = ''-Inf''"
| "format_f2 (Fin m e) =
     (let (h, u) = round_at (\<bar>m\<bar> * 100) e 0;
          hundredths = h * pow2 u
      in (if m < 0 then ''-'' else []) @ Itoa (hundredths div 100) @ ''.'' @ two_digits (hundredths mod 100))"

definition appendTopologyEvents ::
  "Runtime \<Rightarrow> TimelineEvent list \<Rightarrow> string \<Rightarrow> ServiceGraphEdge list \<Rightarrow> TimelineEvent list" where
  "appendTopologyEvents rt timeline service edges =
     (if edges = [] then timeline
      else let related = filter (\<lambda>edge. Source edge = service \<or> Target edge = service) edges
           in if related = [] then timeline
              else let sorted = sort_Slice (edgeOrder rt) (\<lambda>a b. fgt (CallRate a) (CallRate b)) related;
                       limit = (if length sorted < 2 then length sorted else 2);
                       rootTime0 = rootEventTime (caseOrbit rt) service timeline;
                       rootTime = (if IsZero rootTime0 then now rt 0 else rootTime0);
                       events = map (\<lambda>edge.
                          let suffix = (if fgt (ErrorRate edge) fzero
                                        then '' (error rate '' @ format_f2 (ErrorRate edge) @ ''%)''
                                        else [])
                          in if Target edge = service
                             then \<lparr>Time = Add rootTime (- 500 * Millisecond),
                                   Event = ''Service graph: upstream '' @ Source edge @ '' -> '' @ Target edge @ suffix,
                                   Service = Source edge, Severity = SeverityLow,
                                   AnomalyScore = fzero, DataSource = DataTypeTraces\<rparr>
                             else \<lparr>Time = Add rootTime (500 * Millisecond),
                                   Event = ''Service graph: '' @ Source edge @ '' -> '' @ Target edge @ suffix,
                                   Service = Target edge, Severity = SeverityLow,
                                   AnomalyScore = fzero, DataSource = DataTypeTraces\<rparr>) (take limit sorted)
                   in sort_Slice (eventOrder rt) (\<lambda>a b. Before (Time a) (Time b)) (timeline @ events))"

fun uniqueStrings_from :: "string list \<Rightarrow> string list \<Rightarrow> string list" where
  "uniqueStrings_from seen [] = []"
| "uniqueStrings_from seen (v # vs) =
     (if v = [] \<or> v \<in> set seen then uniqueStrings_from seen vs
      else v # uniqueStrings_from (v # seen) vs)"

definition uniqueStrings :: "string list \<Rightarrow> string list" where
  "uniqueStrings vals = uniqueStrings_from [] vals"

text \<open>The nominal service: the local \<open>service\<close> of \<open>Investigate\<close>.\<close>

definition Investigate_service :: "InvestigationRequest \<Rightarrow> string" where
  "Investigate_service req =
     (let service0 = firstNonEmpty (ir_AffectedServices req);
          service1 = (if service0 = [] \<and> Symptoms req \<noteq> [] then hd (Symptoms req) else service0)
      in if service1 = [] then ''unknown-service'' else service1)"

text \<open>
  The local \<open>causalityResult\<close> of \<open>Investigate\<close> (the zero value when there is no
  causality engine), the condition under which \<open>Investigate\<close> overrides the root cause,
  and the local \<open>suggestedEvent\<close> that it then appends to the timeline.
\<close>

definition Investigate_causalityResult ::
  "Pipeline \<Rightarrow> Runtime \<Rightarrow> string \<Rightarrow> TimelineEvent list \<Rightarrow> ServiceGraphEdge list \<Rightarrow> CausalityResult" where
  "Investigate_causalityResult p rt service timeline serviceGraph =
     (case causalityEngine p of
        None \<Rightarrow> \<lparr>Score = fzero, Notes = [], SuggestedService = []\<rparr>
      | Some e \<Rightarrow> Evaluate (caseOrbit rt) service timeline serviceGraph)"

definition Investigate_override :: "Runtime \<Rightarrow> CausalityResult \<Rightarrow> string \<Rightarrow> bool" where
  "Investigate_override rt causalityResult service =
     (SuggestedService causalityResult \<noteq> []
      \<and> \<not> EqualFold (caseOrbit rt) (SuggestedService causalityResult) service)"

definition Investigate_suggestedEvent ::
  "Runtime \<Rightarrow> CausalityResult \<Rightarrow> string \<Rightarrow> TimelineEvent list \<Rightarrow> TimelineEvent" where
  "Investigate_suggestedEvent rt causalityResult service timeline =
     \<lparr>Time = Add (rootEventTime (caseOrbit rt) (SuggestedService causalityResult) timeline)
                 (- 500 * Millisecond),
      Event = ''Causality: '' @ SuggestedService causalityResult @ '' precedes '' @ service,
      Service = SuggestedService causalityResult,
      Severity = SeverityMedium, AnomalyScore = fzero,
      DataSource = DataTypeTraces\<rparr>"

text \<open>
  The part of \<open>Investigate\<close> after the extractors have run: from the anomalies and the
  service graph to the result.
\<close>

definition Investigate_assemble ::
  "Pipeline \<Rightarrow> Runtime \<Rightarrow> InvestigationRequest \<Rightarrow> ServiceGraphEdge list \<Rightarrow>
   MetricAnomaly list \<Rightarrow> LogAnomaly list \<Rightarrow> TraceAnomaly list \<Rightarrow> CorrelationResult" where
  "Investigate_assemble p rt req serviceGraph metricAnomalies logAnomalies traceAnomalies =
     (let service = Investigate_service req;
          anchors = buildAnchors service metricAnomalies logAnomalies traceAnomalies;
          timeline = buildTimeline rt metricAnomalies logAnomalies traceAnomalies;
          confidence = computeConfidence metricAnomalies logAnomalies traceAnomalies;
          rootCause = deriveRootCause service anchors;
          causalityResult = Investigate_causalityResult p rt service timeline serviceGraph;
          causalityScore = (case causalityEngine p of None \<Rightarrow> fzero | Some e \<Rightarrow> Score causalityResult);
          recommendations = fetchRecommendations p req anchors timeline;
          affected0 = uniqueStrings (service # ir_AffectedServices req);
          affected1 = uniqueStrings (affected0 @ neighborServices rt serviceGraph service);
          override = Investigate_override rt causalityResult service;
          affected = (if override then uniqueStrings (affected1 @ [SuggestedService causalityResult])
                      else affected1);
          rootCause' = (if override
                        then SuggestedService causalityResult @ '': upstream influence on '' @ service
                        else rootCause);
          timeline' = (if override
                       then timeline @ [Investigate_suggestedEvent rt causalityResult service timeline]
                       else timeline);
          timeline'' = appendTopologyEvents rt timeline' service serviceGraph
      in \<lparr>CorrelationID = ''corr-'' @ Itoa (UnixNano (now rt 1)),
          IncidentID = ir_IncidentID req,
          RootCause = rootCause',
          Confidence = calibrateConfidence confidence causalityScore,
          AffectedServices = affected,
          RedAnchors = anchors,
          Timeline = timeline'',
          Recommendations = recommendations,
          CreatedAt = now rt 2\<rparr>)"

text \<open>
  The locals of \<open>Investigate\<close> that hold what was fetched and detected, for a core
  client \<open>c\<close>.
\<close>

definition Investigate_serviceGraph :: "CoreClient \<Rightarrow> InvestigationRequest \<Rightarrow> ServiceGraphEdge list" where
  "Investigate_serviceGraph c req =
     fst (FetchServiceGraph c (TenantID req) (Start (TimeRange req)) (End (TimeRange req)))"

definition Investigate_metricAnomalies :: "CoreClient \<Rightarrow> InvestigationRequest \<Rightarrow> MetricAnomaly list" where
  "Investigate_metricAnomalies c req =
     MetricExtractor_Detect
       (fst (FetchMetricSeries c (TenantID req) (Investigate_service req)
               (Start (TimeRange req)) (End (TimeRange req))))
       (AnomalyThreshold req)"

definition Investigate_logAnomalies ::
  "Runtime \<Rightarrow> CoreClient \<Rightarrow> InvestigationRequest \<Rightarrow> LogAnomaly list" where
  "Investigate_logAnomalies rt c req =
     LogsExtractor_Detect (caseOrbit rt)
       (fst (FetchLogEntries c (TenantID req) (Investigate_service req)
               (Start (TimeRange req)) (End (TimeRange req))))"

definition Investigate_traceAnomalies ::
  "Pipeline \<Rightarrow> CoreClient \<Rightarrow> InvestigationRequest \<Rightarrow> TraceAnomaly list" where
  "Investigate_traceAnomalies p c req =
     TracesExtractor_Detect (tracesExtractor p)
       (fst (FetchTraceSpans c (TenantID req) (Investigate_service req)
               (Start (TimeRange req)) (End (TimeRange req))))"


text \<open>The errors of the four fetches (\<open>None\<close> is \<open>nil\<close>).\<close>

definition Investigate_graphErr :: "CoreClient \<Rightarrow> InvestigationRequest \<Rightarrow> error option" where
  "Investigate_graphErr c req =
     snd (FetchServiceGraph c (TenantID req) (Start (TimeRange req)) (End (TimeRange req)))"

definition Investigate_metricsErr :: "CoreClient \<Rightarrow> InvestigationRequest \<Rightarrow> error option" where
  "Investigate_metricsErr c req =
     snd (FetchMetricSeries c (TenantID req) (Investigate_service req)
            (Start (TimeRange req)) (End (TimeRange req)))"

definition Investigate_logsErr :: "CoreClient \<Rightarrow> InvestigationRequest \<Rightarrow> error option" where
  "Investigate_logsErr c req =
     snd (FetchLogEntries c (TenantID req) (Investigate_service req)
            (Start (TimeRange req)) (End (TimeRange req)))"

definition Investigate_spansErr :: "CoreClient \<Rightarrow> InvestigationRequest \<Rightarrow> error option" where
  "Investigate_spansErr c req =
     snd (FetchTraceSpans c (TenantID req) (Investigate_service req)
            (Start (TimeRange req)) (End (TimeRange req)))"

text \<open>
  \<open>Investigate\<close> returns the result or the error, and what it did besides: the calls
  of \<open>StoreCorrelation\<close> it made (tenant and correlation), and the warnings it logged
  for the errors that it absorbs.
\<close>

record Effects =
  stored :: "(string \<times> CorrelationResult) list"
  warnings :: "(string \<times> error) list"

definition Investigate ::
  "Pipeline \<Rightarrow> Runtime \<Rightarrow> InvestigationRequest \<Rightarrow> (error + CorrelationResult) \<times> Effects" where
  "Investigate p rt req =
     (case coreClient p of
        None \<Rightarrow> (Inl (ErrorString ''core client not configured''), \<lparr>stored = [], warnings = []\<rparr>)
      | Some c \<Rightarrow>
          (let w1 = (case Investigate_graphErr c req of
                       Some err \<Rightarrow> [(''service graph fetch failed'', err)]
                     | None \<Rightarrow> [])
           in case Investigate_metricsErr c req of
                Some err \<Rightarrow> (Inl (Wrapped ''fetch metrics'' err), \<lparr>stored = [], warnings = w1\<rparr>)
              | None \<Rightarrow>
                 (case Investigate_logsErr c req of
                    Some err \<Rightarrow> (Inl (Wrapped ''fetch logs'' err), \<lparr>stored = [], warnings = w1\<rparr>)
                  | None \<Rightarrow>
                     (case Investigate_spansErr c req of
                        Some err \<Rightarrow>
                          (Inl (Wrapped ''fetch traces'' err), \<lparr>stored = [], warnings = w1\<rparr>)
                      | None \<Rightarrow>
                          (let result = Investigate_assemble p rt req (Investigate_serviceGraph c req)
                                 (Investigate_metricAnomalies c req) (Investigate_logAnomalies rt c req)
                                 (Investigate_traceAnomalies p c req)
                           in case weaviate p of
                                None \<Rightarrow> (Inr result, \<lparr>stored = [], warnings = w1\<rparr>)
                              | Some w \<Rightarrow>
                                  (Inr result,
                                   \<lparr>stored = [(TenantID req, result)],
                                     warnings = w1 @
                                       (case StoreCorrelation w (TenantID req) result of
                                          Some err \<Rightarrow> [(''failed to persist correlation'', err)]
                                        | None \<Rightarrow> [])\<rparr>))))))"

section \<open>The similarity and history store (package \<open>repo\<close>, \<open>WeaviateRepo\<close>)\<close>

record WeaviateRepo =
  endpoint :: string
  apiKey :: string
  similarTTL :: int
  patternTTL :: int

definition cacheSimilarIncidentsKey :: "string \<Rightarrow> string list \<Rightarrow> int \<Rightarrow> string" where
  "cacheSimilarIncidentsKey tenantID symptoms limit =
     ''weaviate:similar:'' @ tenantID @ '':'' @ Itoa limit @ '':'' @ Join symptoms ''|''"

text \<open>
  The value of the local \<open>cacheKey\<close> of \<open>SimilarIncidents\<close> where the cache is read and,
  later, written: empty when caching is off (\<open>similarTTL \<le> 0\<close>), otherwise the key of a
  sorted copy of the symptoms (\<open>sort.Strings\<close>, the bytewise lexicographic order of Go
  strings).  Without an endpoint the function returns before it computes a key.
\<close>

definition SimilarIncidents_cacheKey ::
  "WeaviateRepo \<Rightarrow> string \<Rightarrow> string list \<Rightarrow> int \<Rightarrow> string option" where
  "SimilarIncidents_cacheKey r tenantID symptoms limit =
     (if endpoint r = [] then None
      else if similarTTL r > 0
      then (let sorted = sort symptoms in Some (cacheSimilarIncidentsKey tenantID sorted limit))
      else Some [])"

text \<open>
  The cache read of \<open>SimilarIncidents\<close>: the entry under the key, when caching is on, the
  cache holds it (\<open>Get\<close> returns no error) and it decodes (\<open>json.Unmarshal\<close> returns no
  error).  The result is what \<open>SimilarIncidents\<close> then returns without asking upstream.
\<close>

definition SimilarIncidents_cacheRead ::
  "WeaviateRepo \<Rightarrow> (string \<Rightarrow> 'b option) \<Rightarrow> ('b \<Rightarrow> 'c option) \<Rightarrow> string \<Rightarrow> string list \<Rightarrow> int \<Rightarrow> 'c option" where
  "SimilarIncidents_cacheRead r cacheGet unmarshal tenantID symptoms limit =
     (if endpoint r = [] \<or> similarTTL r \<le> 0 then None
      else case SimilarIncidents_cacheKey r tenantID symptoms limit of
             None \<Rightarrow> None
           | Some cacheKey \<Rightarrow> (case cacheGet cacheKey of None \<Rightarrow> None | Some data \<Rightarrow> unmarshal data))"

subsection \<open>\<open>ListCorrelations\<close>\<close>

record ListCorrelationsRequest =
  lc_TenantID :: string
  lc_Service :: string
  lc_Start :: Time
  lc_End :: Time
  PageSize :: int
  PageToken :: string

record ListCorrelationsResponse =
  Correlations :: "CorrelationResult list"
  NextPageToken :: string

text \<open>
  The GraphQL query that \<open>ListCorrelations\<close> sends, by its variable parts: the limit, the
  offset and the operands of the \<open>where\<close> clause that \<open>buildCorrelationWhere\<close> joins.
\<close>

datatype where_operand =
    TenantIdEqual string
  | AffectedServicesContainsAny string
  | CreatedAtGreaterThanEqual Time
  | CreatedAtLessThanEqual Time

record CorrelationQuery =
  q_limit :: int
  q_offset :: int
  q_where :: "where_operand list"

definition buildCorrelationWhere :: "ListCorrelationsRequest \<Rightarrow> where_operand list" where
  "buildCorrelationWhere req =
     [TenantIdEqual (lc_TenantID req)]
     @ (if lc_Service req \<noteq> [] then [AffectedServicesContainsAny (lc_Service req)] else [])
     @ (if \<not> IsZero (lc_Start req) then [CreatedAtGreaterThanEqual (lc_Start req)] else [])
     @ (if \<not> IsZero (lc_End req) then [CreatedAtLessThanEqual (lc_End req)] else [])"

text \<open>The locals \<open>limit\<close> and \<open>offset\<close> of \<open>ListCorrelations\<close>, and the query built from them.\<close>

definition ListCorrelations_limit :: "ListCorrelationsRequest \<Rightarrow> int" where
  "ListCorrelations_limit req = (if PageSize req \<le> 0 \<or> PageSize req > 100 then 20 else PageSize req)"

definition ListCorrelations_offset :: "ListCorrelationsRequest \<Rightarrow> int" where
  "ListCorrelations_offset req =
     (if PageToken req \<noteq> []
      then (case Atoi (PageToken req) of
              Some v \<Rightarrow> if v \<ge> 0 then v else 0
            | None \<Rightarrow> 0)
      else 0)"

definition ListCorrelations_query :: "ListCorrelationsRequest \<Rightarrow> CorrelationQuery" where
  "ListCorrelations_query req =
     \<lparr>q_limit = ListCorrelations_limit req, q_offset = ListCorrelations_offset req,
      q_where = buildCorrelationWhere req\<rparr>"

text \<open>
  What comes of the HTTP exchange: the request could not be built; the transport failed
  or the status was not 200; the body did not decode; or the decoded records, here
  already converted to correlations (a conversion record by record).
\<close>

datatype http_outcome =
    RequestNotBuilt error
  | Unavailable
  | Undecodable error
  | Decoded "CorrelationResult list"

definition Minute :: int where
  "Minute = 60 * Second"

definition Hour :: int where
  "Hour = 60 * Minute"

definition syntheticCorrelationList ::
  "(nat \<Rightarrow> Time) \<Rightarrow> ListCorrelationsRequest \<Rightarrow> ListCorrelationsResponse" where
  "syntheticCorrelationList clock req =
     (let service = (if lc_Service req = [] then ''synthetic-service'' else lc_Service req)
      in \<lparr>Correlations =
            [\<lparr>CorrelationID = ''synthetic-corr-1'',
              IncidentID = ''synthetic-incident-1'',
              RootCause = service @ '': cpu usage anomaly'',
              Confidence = flit 65 100,
              AffectedServices = [service],
              RedAnchors =
                [\<lparr>ra_Service = service, Selector = ''metrics:cpu_usage'',
                  ra_DataType = DataTypeMetrics, ra_Timestamp = Add (clock 1) (- 70 * Minute),
                  ra_AnomalyScore = flit 32 10, ra_Threshold = Fin 2 0\<rparr>],
              Timeline =
                [\<lparr>Time = Add (clock 2) (- 75 * Minute), Event = ''Metric anomaly detected'',
                  Service = service, Severity = SeverityHigh, AnomalyScore = flit 32 10,
                  DataSource = DataTypeMetrics\<rparr>],
              Recommendations = [''Scale service'', ''Review upstream errors''],
              CreatedAt = Add (clock 0) (- 1 * Hour)\<rparr>],
          NextPageToken = []\<rparr>)"

text \<open>Addition on the 64-bit \<open>int\<close> wraps around.\<close>

definition wrap_int64 :: "int \<Rightarrow> int" where
  "wrap_int64 n = (n + 2 ^ 63) mod 2 ^ 64 - 2 ^ 63"

text \<open>
  \<open>ListCorrelations\<close>; the receiver is \<open>None\<close> when it is \<open>nil\<close>, \<open>http\<close> answers the query
  and \<open>clock i\<close> is the \<open>i\<close>-th reading of the clock by \<open>syntheticCorrelationList\<close>.
\<close>

definition ListCorrelations ::
  "WeaviateRepo option \<Rightarrow> (CorrelationQuery \<Rightarrow> http_outcome) \<Rightarrow> (nat \<Rightarrow> Time) \<Rightarrow>
   ListCorrelationsRequest \<Rightarrow> error + ListCorrelationsResponse" where
  "ListCorrelations repo http clock req =
     (case repo of
        None \<Rightarrow> Inl (ErrorString ''weaviate repo not initialised'')
      | Some r \<Rightarrow>
          if endpoint r = [] then Inr (syntheticCorrelationList clock req)
          else let limit = ListCorrelations_limit req;
                   offset = ListCorrelations_offset req
               in case http (ListCorrelations_query req) of
                    RequestNotBuilt err \<Rightarrow> Inl err
                  | Unavailable \<Rightarrow> Inr (syntheticCorrelationList clock req)
                  | Undecodable err \<Rightarrow> Inl err
                  | Decoded correlations \<Rightarrow>
                      Inr \<lparr>Correlations = correlations,
                           NextPageToken =
                             (if int (length correlations) = limit
                              then Itoa (wrap_int64 (offset + int (length correlations)))
                              else [])\<rparr>)"

section \<open>Latency tracker (package \<open>utils\<close>, \<open>LatencyTracker\<close>)\<close>

text \<open>A \<open>time.Duration\<close> is an integer number of nanoseconds.\<close>

record LatencyTracker =
  samples :: "int list"
  maxSize :: int

definition NewLatencyTracker :: "int \<Rightarrow> LatencyTracker" where
  "NewLatencyTracker n = \<lparr>samples = [], maxSize = (if n \<le> 0 then 512 else n)\<rparr>"

definition Observe :: "LatencyTracker \<Rightarrow> int \<Rightarrow> LatencyTracker" where
  "Observe l d =
     (let s = samples l @ [d]
      in if int (length s) > maxSize l
         then l\<lparr>samples := take (nat (maxSize l)) (tl s @ [last s])\<rparr>
         else l\<lparr>samples := s\<rparr>)"

definition tracker_min :: "LatencyTracker \<Rightarrow> int" where
  "tracker_min l =
     (case samples l of
        [] \<Rightarrow> 0
      | s0 # rest \<Rightarrow> foldl (\<lambda>mn s. if s < mn then s else mn) s0 rest)"

definition tracker_max :: "LatencyTracker \<Rightarrow> int" where
  "tracker_max l =
     (case samples l of
        [] \<Rightarrow> 0
      | s0 # rest \<Rightarrow> foldl (\<lambda>mx s. if s > mx then s else mx) s0 rest)"

text \<open>The local \<open>index\<close> of \<open>Percentile\<close>, for a sorted copy of \<open>n\<close> samples.\<close>

definition Percentile_index :: "f64 \<Rightarrow> int \<Rightarrow> int" where
  "Percentile_index p n =
     (let index0 = to_int (fmul (fdiv p (Fin 100 0)) (of_int64 (n - 1)));
          index1 = (if index0 < 0 then 0 else index0)
      in if index1 \<ge> n then n - 1 else index1)"

definition Percentile :: "LatencyTracker \<Rightarrow> f64 \<Rightarrow> int" where
  "Percentile l p =
     (if samples l = [] then 0
      else if fle p fzero then tracker_min l
      else if fge p (Fin 100 0) then tracker_max l
      else let sorted = sort (samples l)
           in sorted ! nat (Percentile_index p (int (length sorted))))"

text \<open>
  The index as the specification words it, \<open>round(p/100 * (n - 1))\<close>, in exact
  arithmetic on the value of the finite float \<open>p\<close>; to be compared with
  \<open>Percentile_index\<close>.
\<close>

definition f64_real :: "f64 \<Rightarrow> real" where
  "f64_real x = (case x of Fin m e \<Rightarrow> of_int m * 2 powi e | _ \<Rightarrow> 0)"

definition spec_percentile_index :: "f64 \<Rightarrow> int \<Rightarrow> int" where
  "spec_percentile_index p n = round (f64_real p / 100 * of_int (n - 1))"

text \<open>
  The page size as the specification words it: clamped to the interval from 1 to 100,
  with the default 20 when no size is requested; to be compared with
  \<open>ListCorrelations_limit\<close>.
\<close>

definition spec_page_size :: "int \<Rightarrow> int" where
  "spec_page_size n = (if n = 0 then 20 else max 1 (min 100 n))"

section \<open>Example inputs\<close>

text \<open>
  Concrete inputs on which the theorems below are exercised: a request about the
  service \<open>checkout\<close>, a run-time system, and a core client that returns one quiet metric sample,
  one quiet log aggregate, and the given spans and edges.
\<close>

definition ex_request :: InvestigationRequest where
  "ex_request =
     \<lparr>ir_IncidentID = ''incident-1'', Symptoms = [],
      TimeRange = \<lparr>Start = 63000000000 * Second, End = 63000002000 * Second\<rparr>,
      ir_AffectedServices = [''checkout''], AnomalyThreshold = Fin 0 0, TenantID = ''tenant-a''\<rparr>"

text \<open>
  The names of the examples are ASCII, and on ASCII runes the folding orbits pair each
  capital letter with its small letter: \<open>ex_orbit\<close> is that part of the table.  The
  example run-time system keeps equal elements of a long slice in their order.
\<close>

definition ex_orbit :: "rune \<Rightarrow> rune" where
  "ex_orbit r = (if 65 \<le> r \<and> r \<le> 90 then r + 32 else r)"

definition ex_runtime :: Runtime where
  "ex_runtime =
     \<lparr>now = (\<lambda>i. 63000003000 * Second + int i), mapRange = (\<lambda>keys. keys),
      caseOrbit = ex_orbit, eventOrder = (\<lambda>xs a b. False), edgeOrder = (\<lambda>xs a b. False)\<rparr>"

definition ex_span :: "string \<Rightarrow> string \<Rightarrow> int \<Rightarrow> TraceSpan" where
  "ex_span service status t =
     \<lparr>TraceID = ''trace-1'', SpanID = ''span-1'', ts_Service = service, Operation = ''HTTP POST'',
      Duration = 1 * Second, Status = status, ts_Timestamp = (63000000000 + t) * Second\<rparr>"

definition ex_edge :: "string \<Rightarrow> string \<Rightarrow> f64 \<Rightarrow> f64 \<Rightarrow> ServiceGraphEdge" where
  "ex_edge src tgt calls errors = \<lparr>Source = src, Target = tgt, CallRate = calls, ErrorRate = errors\<rparr>"

definition ex_client ::
  "error option \<Rightarrow> error option \<Rightarrow> TraceSpan list \<Rightarrow> ServiceGraphEdge list \<Rightarrow> CoreClient" where
  "ex_client graphErr metricsErr spans edges =
     \<lparr>FetchMetricSeries = (\<lambda>tenant service start stop.
        (case metricsErr of
           None \<Rightarrow> [\<lparr>mp_Timestamp = start, mp_Value = Fin 1 0\<rparr>]
         | Some err \<Rightarrow> [], metricsErr)),
      FetchLogEntries = (\<lambda>tenant service start stop.
        ([\<lparr>le_Timestamp = start, le_Message = ''ok'', le_Severity = ''info'', le_Count = 5\<rparr>], None)),
      FetchTraceSpans = (\<lambda>tenant service start stop. (spans, None)),
      FetchServiceGraph = (\<lambda>tenant start stop.
        (case graphErr of None \<Rightarrow> edges | Some err \<Rightarrow> [], graphErr))\<rparr>"

definition ex_store :: "error option \<Rightarrow> WeaviateClient" where
  "ex_store storeErr =
     \<lparr>SimilarIncidents = (\<lambda>tenant symptoms limit. ([], None)),
      StoreCorrelation = (\<lambda>tenant correlation. storeErr)\<rparr>"

definition ex_pipeline :: "CoreClient \<Rightarrow> WeaviateClient option \<Rightarrow> Pipeline" where
  "ex_pipeline c w =
     \<lparr>coreClient = Some c, tracesExtractor = NewTracesExtractor, weaviate = w,
      rulesEngine = None, causalityEngine = Some CausalityEngine\<rparr>"

text \<open>
  A history store with an endpoint, requests for a page of a tenant's history, an
  upstream that cannot be reached, and an upstream that serves pages from a list.
\<close>

definition ex_repo :: WeaviateRepo where
  "ex_repo = \<lparr>endpoint = ''http://weaviate:8080'', apiKey = [], similarTTL = 120 * Second, patternTTL = 0\<rparr>"

definition ex_list_request :: "int \<Rightarrow> string \<Rightarrow> ListCorrelationsRequest" where
  "ex_list_request pageSize token =
     \<lparr>lc_TenantID = ''tenant-a'', lc_Service = ''checkout'', lc_Start = 0, lc_End = 0,
      PageSize = pageSize, PageToken = token\<rparr>"

definition ex_clock :: "nat \<Rightarrow> Time" where
  "ex_clock i = 63000003000 * Second + int i"

definition ex_unavailable :: "CorrelationQuery \<Rightarrow> http_outcome" where
  "ex_unavailable q = Unavailable"

definition ex_correlation :: "string \<Rightarrow> CorrelationResult" where
  "ex_correlation ident =
     \<lparr>CorrelationID = ident, IncidentID = ''incident-1'', RootCause = ''checkout: no dominant anchor'',
      Confidence = Fin 0 0, AffectedServices = [''checkout''], RedAnchors = [], Timeline = [],
      Recommendations = [], CreatedAt = 63000000000 * Second\<rparr>"

definition ex_history :: "CorrelationResult list \<Rightarrow> CorrelationQuery \<Rightarrow> http_outcome" where
  "ex_history records q = Decoded (take (nat (q_limit q)) (drop (nat (q_offset q)) records))"

text \<open>A timeline event of a service at a time, for the causality engine.\<close>

definition ex_event :: "string \<Rightarrow> int \<Rightarrow> TimelineEvent" where
  "ex_event service t =
     \<lparr>Time = (63000000000 + t) * Second, Event = ''Slow span: HTTP POST'', Service = service,
      Severity = SeverityHigh, AnomalyScore = Fin 0 0, DataSource = DataTypeTraces\<rparr>"

section \<open>Properties\<close>

subsection \<open>Sorting\<close>

lemma length_insert_by [simp]: "length (insert_by lt x xs) = Suc (length xs)"
  by (induction xs) auto

lemma set_insert_by [simp]: "set (insert_by lt x xs) = insert x (set xs)"
  by (induction xs) auto

lemma length_sort_by [simp]: "length (sort_by lt xs) = length xs"
  by (induction xs) (auto simp: sort_by_def)

lemma set_sort_by [simp]: "set (sort_by lt xs) = set xs"
  by (induction xs) (auto simp: sort_by_def)

lemma sort_by_Nil [simp]: "sort_by lt [] = []"
  by (simp add: sort_by_def)

lemma length_sort_Slice [simp]: "length (sort_Slice tie lt xs) = length xs"
  by (simp add: sort_Slice_def)

lemma set_sort_Slice [simp]: "set (sort_Slice tie lt xs) = set xs"
  by (simp add: sort_Slice_def)




subsection \<open>Floating-point comparisons\<close>

lemma pow2_0 [simp]: "pow2 0 = 1"
  by (simp add: pow2.simps)

lemma fge_3_3: "fge (Fin 3 0) (Fin 3 0)"
  by (simp add: fge_def fle_def)

subsection \<open>The log extractor and the severity of its events\<close>

lemma LogsExtractor_Detect_score:
  assumes "a \<in> set (LogsExtractor_Detect orbit entries)"
  shows "fge (la_Score a) (Fin 3 0)"
  using assms
  by (auto simp: LogsExtractor_Detect_def Let_def fge_3_3 split: if_splits)

lemma severityFromScore_ge_3:
  assumes "fge score (Fin 3 0)"
  shows "severityFromScore score = SeverityHigh \<or> severityFromScore score = SeverityCritical"
  using assms by (simp add: severityFromScore_def)

lemma buildTimeline_set:
  "set (buildTimeline rt ms ls ts) \<subseteq>
     (\<lambda>m. \<lparr>Time = ma_Timestamp m, Event = ''Metric anomaly detected'', Service = [],
            Severity = severityFromScore (ma_Score m), AnomalyScore = ma_Score m,
            DataSource = DataTypeMetrics\<rparr>) ` set ms
   \<union> (\<lambda>l. \<lparr>Time = la_Timestamp l, Event = ''Log spike ('' @ la_Severity l @ '')'',
            Service = [], Severity = severityFromScore (la_Score l),
            AnomalyScore = la_Score l, DataSource = DataTypeLogs\<rparr>) ` set ls
   \<union> (\<lambda>t. \<lparr>Time = ts_Timestamp (Span t), Event = ''Slow span: '' @ Operation (Span t),
            Service = ts_Service (Span t),
            Severity = (if Status (Span t) = ''error'' then SeverityHigh
                        else severityFromScore (ta_Score t)),
            AnomalyScore = ta_Score t, DataSource = DataTypeTraces\<rparr>) ` set ts"
proof -
  have "set (take 10 xs) \<subseteq> set xs" for xs :: "TimelineEvent list"
    by (rule set_take_subset)
  then show ?thesis
    unfolding buildTimeline_def Let_def
    by (auto dest!: in_set_takeD)
qed

text \<open>
  Claim C10.  The log extractor only emits anomalies with a score of at least 3, and
  every timeline event that \<open>buildTimeline\<close> makes from them (the events whose data
  source is logs) has severity high or critical.
\<close>

theorem C10_log_events_high_or_critical:
  "(\<forall>a \<in> set (LogsExtractor_Detect orbit entries). fge (la_Score a) (Fin 3 0)) \<and>
   (\<forall>ev \<in> set (buildTimeline rt metricAnoms (LogsExtractor_Detect orbit entries) traceAnoms).
      DataSource ev = DataTypeLogs \<longrightarrow>
      Severity ev = SeverityHigh \<or> Severity ev = SeverityCritical)"
proof (intro conjI ballI impI)
  fix a assume "a \<in> set (LogsExtractor_Detect orbit entries)"
  then show "fge (la_Score a) (Fin 3 0)" by (rule LogsExtractor_Detect_score)
next
  fix ev
  assume ev: "ev \<in> set (buildTimeline rt metricAnoms (LogsExtractor_Detect orbit entries) traceAnoms)"
    and src: "DataSource ev = DataTypeLogs"
  from ev buildTimeline_set [of rt metricAnoms "LogsExtractor_Detect orbit entries" traceAnoms] src
  obtain l where l: "l \<in> set (LogsExtractor_Detect orbit entries)"
    and sev: "Severity ev = severityFromScore (la_Score l)"
    by auto
  from l have "fge (la_Score l) (Fin 3 0)" by (rule LogsExtractor_Detect_score)
  then show "Severity ev = SeverityHigh \<or> Severity ev = SeverityCritical"
    unfolding sev by (rule severityFromScore_ge_3)
qed

theorem C10_log_events_high_or_critical_witness:
  "\<lparr>Time = 4, Event = ''Log spike (error)'', Service = [], Severity = SeverityHigh,
     AnomalyScore = Fin 3 0, DataSource = DataTypeLogs\<rparr>
     \<in> set (buildTimeline ex_runtime []
         (LogsExtractor_Detect ex_orbit
            [\<lparr>le_Timestamp = 1, le_Message = [], le_Severity = ''info'', le_Count = 10\<rparr>,
             \<lparr>le_Timestamp = 2, le_Message = [], le_Severity = ''info'', le_Count = 10\<rparr>,
             \<lparr>le_Timestamp = 3, le_Message = [], le_Severity = ''info'', le_Count = 10\<rparr>,
             \<lparr>le_Timestamp = 4, le_Message = [], le_Severity = ''error'', le_Count = 30\<rparr>,
             \<lparr>le_Timestamp = 5, le_Message = [], le_Severity = ''error'', le_Count = 30\<rparr>]) []) \<and>
   (Severity \<lparr>Time = 4, Event = ''Log spike (error)'', Service = [], Severity = SeverityHigh,
     AnomalyScore = Fin 3 0, DataSource = DataTypeLogs\<rparr> = SeverityHigh \<or>
    Severity \<lparr>Time = 4, Event = ''Log spike (error)'', Service = [], Severity = SeverityHigh,
     AnomalyScore = Fin 3 0, DataSource = DataTypeLogs\<rparr> = SeverityCritical)"
proof -
  let ?entries = "[\<lparr>le_Timestamp = 1, le_Message = [], le_Severity = ''info'', le_Count = 10\<rparr>,
             \<lparr>le_Timestamp = 2, le_Message = [], le_Severity = ''info'', le_Count = 10\<rparr>,
             \<lparr>le_Timestamp = 3, le_Message = [], le_Severity = ''info'', le_Count = 10\<rparr>,
             \<lparr>le_Timestamp = 4, le_Message = [], le_Severity = ''error'', le_Count = 30\<rparr>,
             \<lparr>le_Timestamp = 5, le_Message = [], le_Severity = ''error'', le_Count = 30\<rparr>]"
  let ?ev = "\<lparr>Time = 4, Event = ''Log spike (error)'', Service = [], Severity = SeverityHigh,
     AnomalyScore = Fin 3 0, DataSource = DataTypeLogs\<rparr>"
  have mem: "?ev \<in> set (buildTimeline ex_runtime [] (LogsExtractor_Detect ex_orbit ?entries) [])"
    by code_simp
  have src: "DataSource ?ev = DataTypeLogs"
    by simp
  from C10_log_events_high_or_critical [of ex_orbit ?entries ex_runtime "[]" "[]"] mem src
  have "Severity ?ev = SeverityHigh \<or> Severity ?ev = SeverityCritical"
    by blast
  with mem show ?thesis by blast
qed

subsection \<open>No anomalies, no confidence\<close>

lemma flit_7_10: "flit 7 10 = Fin 3152519739159347 (- 52)"
  by code_simp

lemma clamp_zero: "clamp fzero fzero (Fin 1 0) = fzero"
  by (simp add: clamp_def fzero_def fgt_def)

lemma fmul_zero_left: "fmul fzero (Fin m e) = fzero"
  by (simp add: fzero_def rnd_def round_pos_def)

lemma calibrateConfidence_zero: "calibrateConfidence fzero fzero = fzero"
  by (simp add: calibrateConfidence_def clamp_zero flit_7_10 fmul_zero_left)
     (simp add: fle_def fzero_def)

lemma computeConfidence_Nil: "computeConfidence [] [] [] = fzero"
  by (simp add: computeConfidence_def fgt_def fzero_def)

lemma buildTimeline_Nil: "buildTimeline rt [] [] [] = []"
  by (simp add: buildTimeline_def sort_Slice_def)

lemma Evaluate_no_timeline: "Evaluate orbit service [] edges = \<lparr>Score = fzero, Notes = [], SuggestedService = []\<rparr>"
  by (simp add: Evaluate_def)

lemma Investigate_assemble_no_anomalies:
  "Confidence (Investigate_assemble p rt req serviceGraph [] [] []) = fzero"
  by (simp add: Investigate_assemble_def Investigate_causalityResult_def Let_def buildTimeline_Nil
      computeConfidence_Nil Evaluate_no_timeline calibrateConfidence_zero split: option.split)

lemma Investigate_Inr:
  assumes "Investigate p rt req = (Inr res, eff)"
  obtains c where "coreClient p = Some c"
    and "Investigate_metricsErr c req = None"
    and "Investigate_logsErr c req = None"
    and "Investigate_spansErr c req = None"
    and "res = Investigate_assemble p rt req (Investigate_serviceGraph c req)
                 (Investigate_metricAnomalies c req) (Investigate_logAnomalies rt c req)
                 (Investigate_traceAnomalies p c req)"
  using assms
  by (auto simp: Investigate_def Let_def split: option.splits)

text \<open>
  Claim C5.  When the three extractors find no anomaly in what was fetched, the base
  confidence is 0 and the confidence of the returned result is exactly 0.
\<close>

theorem C5_no_anomalies_zero_confidence:
  assumes "Investigate p rt req = (Inr res, eff)"
    and "coreClient p = Some c"
    and "Investigate_metricAnomalies c req = []"
    and "Investigate_logAnomalies rt c req = []"
    and "Investigate_traceAnomalies p c req = []"
  shows "computeConfidence (Investigate_metricAnomalies c req) (Investigate_logAnomalies rt c req)
           (Investigate_traceAnomalies p c req) = Fin 0 0
       \<and> Confidence res = Fin 0 0"
proof -
  from assms(1) obtain c' where c': "coreClient p = Some c'"
    and res: "res = Investigate_assemble p rt req (Investigate_serviceGraph c' req)
                 (Investigate_metricAnomalies c' req) (Investigate_logAnomalies rt c' req)
                 (Investigate_traceAnomalies p c' req)"
    by (rule Investigate_Inr)
  from c' assms(2) have "c' = c" by simp
  with res assms(3-5) show ?thesis
    by (simp add: Investigate_assemble_no_anomalies computeConfidence_Nil fzero_def)
qed

lemma ex_quiet_run:
  "Investigate
     (ex_pipeline (ex_client None None [ex_span ''checkout'' ''ok'' 100]
        [ex_edge ''checkout'' ''payments'' (Fin 120 0) (Fin 0 0)]) None)
     ex_runtime ex_request
   = (Inr \<lparr>CorrelationID = ''corr-864406200000000001'',
           IncidentID = ''incident-1'',
           RootCause = ''checkout: no dominant anchor'', Confidence = Fin 0 0,
           AffectedServices = [''checkout'', ''payments''], RedAnchors = [],
           Timeline =
             [\<lparr>Time = 63000003000500000000,
                Event = ''Service graph: checkout -> payments'',
                Service = ''payments'', Severity = SeverityLow,
                AnomalyScore = Fin 0 0, DataSource = DataTypeTraces\<rparr>],
           Recommendations =
             [''Review recent deployments for regressions'',
              ''Check upstream dependencies for correlated errors''],
           CreatedAt = 63000003000000000002\<rparr>,
      \<lparr>stored = [], warnings = []\<rparr>)"
  by code_simp

theorem C5_no_anomalies_zero_confidence_witness:
  "Investigate_metricAnomalies
     (ex_client None None [ex_span ''checkout'' ''ok'' 100]
        [ex_edge ''checkout'' ''payments'' (Fin 120 0) (Fin 0 0)]) ex_request = [] \<and>
   Investigate_logAnomalies ex_runtime
     (ex_client None None [ex_span ''checkout'' ''ok'' 100]
        [ex_edge ''checkout'' ''payments'' (Fin 120 0) (Fin 0 0)]) ex_request = [] \<and>
   Investigate_traceAnomalies
     (ex_pipeline (ex_client None None [ex_span ''checkout'' ''ok'' 100]
        [ex_edge ''checkout'' ''payments'' (Fin 120 0) (Fin 0 0)]) None)
     (ex_client None None [ex_span ''checkout'' ''ok'' 100]
        [ex_edge ''checkout'' ''payments'' (Fin 120 0) (Fin 0 0)]) ex_request = [] \<and>
   map_sum id Confidence
     (fst (Investigate
        (ex_pipeline (ex_client None None [ex_span ''checkout'' ''ok'' 100]
           [ex_edge ''checkout'' ''payments'' (Fin 120 0) (Fin 0 0)]) None)
        ex_runtime ex_request)) = Inr (Fin 0 0)"
proof -
  let ?c = "ex_client None None [ex_span ''checkout'' ''ok'' 100]
        [ex_edge ''checkout'' ''payments'' (Fin 120 0) (Fin 0 0)]"
  have c: "coreClient (ex_pipeline ?c None) = Some ?c"
    by (simp add: ex_pipeline_def)
  have m: "Investigate_metricAnomalies ?c ex_request = []"
    by code_simp
  have l: "Investigate_logAnomalies ex_runtime ?c ex_request = []"
    by code_simp
  have t: "Investigate_traceAnomalies (ex_pipeline ?c None) ?c ex_request = []"
    by code_simp
  from C5_no_anomalies_zero_confidence [OF ex_quiet_run c m l t] m l t
  show ?thesis
    by (simp add: ex_quiet_run)
qed

subsection \<open>Which failures \<open>Investigate\<close> surfaces\<close>

lemma recommendFromRules_weaviate:
  "recommendFromRules (p\<lparr>weaviate := w\<rparr>) req anchors timeline = recommendFromRules p req anchors timeline"
  by (simp add: recommendFromRules_def)

lemma recommendFromRules_coreClient:
  "recommendFromRules (p\<lparr>coreClient := c\<rparr>) req anchors timeline = recommendFromRules p req anchors timeline"
  by (simp add: recommendFromRules_def)

lemma fetchRecommendations_StoreCorrelation:
  assumes "weaviate p = Some w"
  shows "fetchRecommendations (p\<lparr>weaviate := Some (w\<lparr>StoreCorrelation := s\<rparr>)\<rparr>) req anchors timeline
       = fetchRecommendations p req anchors timeline"
  using assms
  by (simp add: fetchRecommendations_def recommendFromRules_weaviate Let_def split: prod.split)

lemma fetchRecommendations_coreClient:
  "fetchRecommendations (p\<lparr>coreClient := c\<rparr>) req anchors timeline
     = fetchRecommendations p req anchors timeline"
  by (simp add: fetchRecommendations_def recommendFromRules_coreClient Let_def
      split: prod.split option.split)

lemma Investigate_causalityResult_weaviate:
  "Investigate_causalityResult (p\<lparr>weaviate := w\<rparr>) rt service timeline g
     = Investigate_causalityResult p rt service timeline g"
  by (simp add: Investigate_causalityResult_def)

lemma Investigate_causalityResult_coreClient:
  "Investigate_causalityResult (p\<lparr>coreClient := c\<rparr>) rt service timeline g
     = Investigate_causalityResult p rt service timeline g"
  by (simp add: Investigate_causalityResult_def)

lemma Investigate_assemble_StoreCorrelation:
  assumes "weaviate p = Some w"
  shows "Investigate_assemble (p\<lparr>weaviate := Some (w\<lparr>StoreCorrelation := s\<rparr>)\<rparr>) rt req g ms ls ts
       = Investigate_assemble p rt req g ms ls ts"
  by (simp add: Investigate_assemble_def fetchRecommendations_StoreCorrelation [OF assms]
      Investigate_causalityResult_weaviate)

lemma Investigate_assemble_coreClient:
  "Investigate_assemble (p\<lparr>coreClient := c\<rparr>) rt req g ms ls ts
     = Investigate_assemble p rt req g ms ls ts"
  by (simp add: Investigate_assemble_def fetchRecommendations_coreClient
      Investigate_causalityResult_coreClient)

text \<open>
  Claim C2.  With a core client configured: a failure of the metrics, logs or traces
  fetch makes \<open>Investigate\<close> return that failure, wrapped, and nothing is stored.  When
  the three fetches succeed, \<open>Investigate\<close> returns the assembled result whatever the
  service-graph fetch and the final \<open>StoreCorrelation\<close> report: replacing the error of
  the one or the answer of the other changes neither the outcome nor the fact that a
  result is returned.
\<close>

theorem C2_strict_and_absorbed_failures:
  assumes "coreClient p = Some c"
  shows
    "(Investigate_metricsErr c req = Some err \<longrightarrow>
        fst (Investigate p rt req) = Inl (Wrapped ''fetch metrics'' err) \<and>
        stored (snd (Investigate p rt req)) = []) \<and>
     (Investigate_metricsErr c req = None \<and> Investigate_logsErr c req = Some err \<longrightarrow>
        fst (Investigate p rt req) = Inl (Wrapped ''fetch logs'' err) \<and>
        stored (snd (Investigate p rt req)) = []) \<and>
     (Investigate_metricsErr c req = None \<and> Investigate_logsErr c req = None \<and>
      Investigate_spansErr c req = Some err \<longrightarrow>
        fst (Investigate p rt req) = Inl (Wrapped ''fetch traces'' err) \<and>
        stored (snd (Investigate p rt req)) = []) \<and>
     (Investigate_metricsErr c req = None \<and> Investigate_logsErr c req = None \<and>
      Investigate_spansErr c req = None \<longrightarrow>
        fst (Investigate p rt req)
          = Inr (Investigate_assemble p rt req (Investigate_serviceGraph c req)
                   (Investigate_metricAnomalies c req) (Investigate_logAnomalies rt c req)
                   (Investigate_traceAnomalies p c req)) \<and>
        fst (Investigate
               (p\<lparr>coreClient := Some (c\<lparr>FetchServiceGraph :=
                     \<lambda>tenant start stop. (fst (FetchServiceGraph c tenant start stop), graphErr)\<rparr>)\<rparr>)
               rt req)
          = fst (Investigate p rt req) \<and>
        (\<forall>w. weaviate p = Some w \<longrightarrow>
           fst (Investigate (p\<lparr>weaviate := Some (w\<lparr>StoreCorrelation := store\<rparr>)\<rparr>) rt req)
             = fst (Investigate p rt req)))"
proof (intro conjI impI allI)
  assume "Investigate_metricsErr c req = Some err"
  with assms show "fst (Investigate p rt req) = Inl (Wrapped ''fetch metrics'' err)"
    and "stored (snd (Investigate p rt req)) = []"
    by (simp_all add: Investigate_def Let_def)
next
  assume "Investigate_metricsErr c req = None \<and> Investigate_logsErr c req = Some err"
  with assms show "fst (Investigate p rt req) = Inl (Wrapped ''fetch logs'' err)"
    and "stored (snd (Investigate p rt req)) = []"
    by (simp_all add: Investigate_def Let_def)
next
  assume "Investigate_metricsErr c req = None \<and> Investigate_logsErr c req = None \<and>
      Investigate_spansErr c req = Some err"
  with assms show "fst (Investigate p rt req) = Inl (Wrapped ''fetch traces'' err)"
    and "stored (snd (Investigate p rt req)) = []"
    by (simp_all add: Investigate_def Let_def)
next
  assume ok: "Investigate_metricsErr c req = None \<and> Investigate_logsErr c req = None \<and>
      Investigate_spansErr c req = None"
  let ?c' = "c\<lparr>FetchServiceGraph :=
               \<lambda>tenant start stop. (fst (FetchServiceGraph c tenant start stop), graphErr)\<rparr>"
  from assms ok
  show res: "fst (Investigate p rt req)
          = Inr (Investigate_assemble p rt req (Investigate_serviceGraph c req)
                   (Investigate_metricAnomalies c req) (Investigate_logAnomalies rt c req)
                   (Investigate_traceAnomalies p c req))"
    by (simp add: Investigate_def Let_def split: option.split)
  have same: "Investigate_metricsErr ?c' req = Investigate_metricsErr c req"
    "Investigate_logsErr ?c' req = Investigate_logsErr c req"
    "Investigate_spansErr ?c' req = Investigate_spansErr c req"
    "Investigate_serviceGraph ?c' req = Investigate_serviceGraph c req"
    "Investigate_metricAnomalies ?c' req = Investigate_metricAnomalies c req"
    "Investigate_logAnomalies rt ?c' req = Investigate_logAnomalies rt c req"
    "Investigate_traceAnomalies (p\<lparr>coreClient := Some ?c'\<rparr>) ?c' req = Investigate_traceAnomalies p c req"
    by (simp_all add: Investigate_metricsErr_def Investigate_logsErr_def Investigate_spansErr_def
        Investigate_serviceGraph_def Investigate_metricAnomalies_def Investigate_logAnomalies_def
        Investigate_traceAnomalies_def)
  note asm = Investigate_assemble_coreClient
  from ok show "fst (Investigate (p\<lparr>coreClient := Some ?c'\<rparr>) rt req) = fst (Investigate p rt req)"
    unfolding res
    by (simp add: Investigate_def Let_def same asm split: option.split)
  fix w assume w: "weaviate p = Some w"
  have tr: "Investigate_traceAnomalies (p\<lparr>weaviate := Some (w\<lparr>StoreCorrelation := store\<rparr>)\<rparr>) c req
          = Investigate_traceAnomalies p c req"
    by (simp add: Investigate_traceAnomalies_def)
  from assms ok w
  show "fst (Investigate (p\<lparr>weaviate := Some (w\<lparr>StoreCorrelation := store\<rparr>)\<rparr>) rt req)
      = fst (Investigate p rt req)"
    unfolding res
    by (simp add: Investigate_def Let_def tr Investigate_assemble_StoreCorrelation)
qed

theorem C2_strict_and_absorbed_failures_witness:
  "coreClient
     (ex_pipeline (ex_client None (Some (ErrorString ''mirador-core returned 503''))
        [ex_span ''checkout'' ''error'' 100] []) (Some (ex_store None)))
     = Some (ex_client None (Some (ErrorString ''mirador-core returned 503''))
        [ex_span ''checkout'' ''error'' 100] []) \<and>
   Investigate_metricsErr
     (ex_client None (Some (ErrorString ''mirador-core returned 503''))
        [ex_span ''checkout'' ''error'' 100] []) ex_request
     = Some (ErrorString ''mirador-core returned 503'') \<and>
   Investigate
     (ex_pipeline (ex_client None (Some (ErrorString ''mirador-core returned 503''))
        [ex_span ''checkout'' ''error'' 100] []) (Some (ex_store None)))
     ex_runtime ex_request
     = (Inl (Wrapped ''fetch metrics'' (ErrorString ''mirador-core returned 503'')),
        \<lparr>stored = [], warnings = []\<rparr>) \<and>
   Investigate_graphErr
     (ex_client (Some (ErrorString ''mirador-core service graph returned no edges'')) None
        [ex_span ''checkout'' ''error'' 100] []) ex_request
     = Some (ErrorString ''mirador-core service graph returned no edges'') \<and>
   Investigate_metricsErr
     (ex_client (Some (ErrorString ''mirador-core service graph returned no edges'')) None
        [ex_span ''checkout'' ''error'' 100] []) ex_request = None \<and>
   Investigate_logsErr
     (ex_client (Some (ErrorString ''mirador-core service graph returned no edges'')) None
        [ex_span ''checkout'' ''error'' 100] []) ex_request = None \<and>
   Investigate_spansErr
     (ex_client (Some (ErrorString ''mirador-core service graph returned no edges'')) None
        [ex_span ''checkout'' ''error'' 100] []) ex_request = None \<and>
   map_sum id RootCause
     (fst (Investigate
        (ex_pipeline
           (ex_client (Some (ErrorString ''mirador-core service graph returned no edges'')) None
              [ex_span ''checkout'' ''error'' 100] [])
           (Some (ex_store (Some (ErrorString ''weaviate store correlation failed'')))))
        ex_runtime ex_request))
     = Inr ''checkout: trace:HTTP POST anomaly'' \<and>
   warnings
     (snd (Investigate
        (ex_pipeline
           (ex_client (Some (ErrorString ''mirador-core service graph returned no edges'')) None
              [ex_span ''checkout'' ''error'' 100] [])
           (Some (ex_store (Some (ErrorString ''weaviate store correlation failed'')))))
        ex_runtime ex_request))
     = [(''service graph fetch failed'', ErrorString ''mirador-core service graph returned no edges''),
        (''failed to persist correlation'', ErrorString ''weaviate store correlation failed'')]"
proof -
  let ?e = "ErrorString ''mirador-core returned 503''"
  let ?cf = "ex_client None (Some ?e) [ex_span ''checkout'' ''error'' 100] []"
  let ?pf = "ex_pipeline ?cf (Some (ex_store None))"
  let ?g = "ErrorString ''mirador-core service graph returned no edges''"
  let ?c = "ex_client (Some ?g) None [ex_span ''checkout'' ''error'' 100] []"
  let ?p = "ex_pipeline ?c (Some (ex_store (Some (ErrorString ''weaviate store correlation failed''))))"
  have cf: "coreClient ?pf = Some ?cf" and c: "coreClient ?p = Some ?c"
    by (simp_all add: ex_pipeline_def)
  have mf: "Investigate_metricsErr ?cf ex_request = Some ?e"
    by (simp add: Investigate_metricsErr_def ex_client_def)
  have wf: "warnings (snd (Investigate ?pf ex_runtime ex_request)) = []"
    by code_simp
  have ok: "Investigate_metricsErr ?c ex_request = None" "Investigate_logsErr ?c ex_request = None"
    "Investigate_spansErr ?c ex_request = None"
    by (simp_all add: Investigate_metricsErr_def Investigate_logsErr_def Investigate_spansErr_def
        ex_client_def)
  have g: "Investigate_graphErr ?c ex_request = Some ?g"
    by (simp add: Investigate_graphErr_def ex_client_def)
  have root: "RootCause (Investigate_assemble ?p ex_runtime ex_request (Investigate_serviceGraph ?c ex_request)
                   (Investigate_metricAnomalies ?c ex_request) (Investigate_logAnomalies ex_runtime ?c ex_request)
                   (Investigate_traceAnomalies ?p ?c ex_request)) = ''checkout: trace:HTTP POST anomaly''"
    by code_simp
  have w: "warnings (snd (Investigate ?p ex_runtime ex_request))
     = [(''service graph fetch failed'', ?g),
        (''failed to persist correlation'', ErrorString ''weaviate store correlation failed'')]"
    by code_simp
  from C2_strict_and_absorbed_failures [OF cf, of ex_request ?e ex_runtime] mf
  have f1: "fst (Investigate ?pf ex_runtime ex_request) = Inl (Wrapped ''fetch metrics'' ?e)"
    and f2: "stored (snd (Investigate ?pf ex_runtime ex_request)) = []"
    by blast+
  from f1 f2 wf have run: "Investigate ?pf ex_runtime ex_request
     = (Inl (Wrapped ''fetch metrics'' ?e), \<lparr>stored = [], warnings = []\<rparr>)"
    by (cases "Investigate ?pf ex_runtime ex_request") (auto intro: Effects.equality)
  from C2_strict_and_absorbed_failures [OF c, of ex_request _ ex_runtime] ok
  have "fst (Investigate ?p ex_runtime ex_request)
      = Inr (Investigate_assemble ?p ex_runtime ex_request (Investigate_serviceGraph ?c ex_request)
                   (Investigate_metricAnomalies ?c ex_request) (Investigate_logAnomalies ex_runtime ?c ex_request)
                   (Investigate_traceAnomalies ?p ?c ex_request))"
    by blast
  with root have r: "map_sum id RootCause (fst (Investigate ?p ex_runtime ex_request))
      = Inr ''checkout: trace:HTTP POST anomaly''"
    by simp
  from cf mf run g ok r w show ?thesis
    by (intro conjI)
qed

subsection \<open>The metric extractor on a constant series\<close>

text \<open>
  Claim C8 says that a constant series yields no anomaly, for every threshold.  On
  three samples of 0.7 and the threshold 1.0 the code returns all three samples: the
  float sum \<open>0.7 + 0.7 + 0.7\<close> is \<open>2.0999999999999996\<close>, the mean is one unit in the last
  place below 0.7, so the variance is \<open>2 ^ - 106\<close> and not 0, the standard deviation
  \<open>2 ^ - 53\<close> is not replaced by 0.01, and every score is exactly 1.
\<close>

theorem C8_constant_series_flagged:
  "flit 7 10 = Fin 3152519739159347 (- 52) \<and>
   fdiv (fadd (fadd (fadd fzero (flit 7 10)) (flit 7 10)) (flit 7 10)) (of_int64 3)
     = Fin 6305039478318693 (- 53) \<and>
   MetricExtractor_Detect
     [\<lparr>mp_Timestamp = 1, mp_Value = flit 7 10\<rparr>,
      \<lparr>mp_Timestamp = 2, mp_Value = flit 7 10\<rparr>,
      \<lparr>mp_Timestamp = 3, mp_Value = flit 7 10\<rparr>] (Fin 1 0)
     = [\<lparr>ma_Timestamp = 1, ma_Value = flit 7 10, ma_Score = Fin 1 0, ma_Threshold = Fin 1 0\<rparr>,
        \<lparr>ma_Timestamp = 2, ma_Value = flit 7 10, ma_Score = Fin 1 0, ma_Threshold = Fin 1 0\<rparr>,
        \<lparr>ma_Timestamp = 3, ma_Value = flit 7 10, ma_Score = Fin 1 0, ma_Threshold = Fin 1 0\<rparr>]"
  by code_simp

subsection \<open>The percentile of the latency tracker\<close>

lemma flt_asym: "flt x y \<Longrightarrow> \<not> flt y x"
  by (cases x; cases y) (auto simp: Let_def min.commute)

lemma flt_not_feq: "flt x y \<Longrightarrow> \<not> feq y x"
  by (cases x; cases y) (auto simp: Let_def min.commute)

lemma flt_not_fle: "flt x y \<Longrightarrow> \<not> fle y x"
  by (simp add: fle_def flt_asym flt_not_feq)

lemma Percentile_index_range:
  assumes "0 < n"
  shows "0 \<le> Percentile_index p n \<and> Percentile_index p n < n"
  using assms by (auto simp: Percentile_index_def Let_def)

text \<open>
  Claim C7 says that the index is \<open>round(p/100 * (n - 1))\<close>.  The code converts the
  float product with \<open>int(...)\<close>, which discards the fraction: of the two samples 10 and
  20 the 90th percentile is 10 (index \<open>int(0.9) = 0\<close>), where the rounded index 1 gives
  20.
\<close>

theorem C7_percentile_rounds_counterexample:
  "Percentile \<lparr>samples = [10, 20], maxSize = 512\<rparr> (Fin 90 0) = 10 \<and>
   spec_percentile_index (Fin 90 0) 2 = 1 \<and>
   sort [10, 20 :: int] ! nat (spec_percentile_index (Fin 90 0) 2) = 20"
proof -
  have a: "Percentile \<lparr>samples = [10, 20], maxSize = 512\<rparr> (Fin 90 0) = 10"
    by code_simp
  have b: "spec_percentile_index (Fin 90 0) 2 = 1"
    by (simp add: spec_percentile_index_def f64_real_def round_def)
  show ?thesis
    by (simp add: a b)
qed

text \<open>
  Claim C7, amended.  For a non-empty buffer of \<open>n\<close> samples and \<open>p\<close> strictly between
  0 and 100, \<open>Percentile\<close> returns the element of the sorted copy at the index
  \<open>int(p/100 * (n - 1))\<close>: the float64 quotient and product, converted to an integer by
  discarding the fraction (and clamped to \<open>0 .. n - 1\<close>).  The index is within the
  sorted copy, so the result is one of the samples.
\<close>

theorem C7_percentile_truncates:
  assumes "samples l \<noteq> []" and "flt fzero p" and "flt p (Fin 100 0)"
  shows "Percentile l p
           = sort (samples l) ! nat (Percentile_index p (int (length (samples l)))) \<and>
         Percentile_index p (int (length (samples l)))
           = (let index = to_int (fmul (fdiv p (Fin 100 0)) (of_int64 (int (length (samples l)) - 1)))
              in if index < 0 then 0
                 else if int (length (samples l)) \<le> index then int (length (samples l)) - 1
                 else index) \<and>
         0 \<le> Percentile_index p (int (length (samples l))) \<and>
         Percentile_index p (int (length (samples l))) < int (length (samples l)) \<and>
         Percentile l p \<in> set (samples l)"
proof -
  let ?n = "int (length (samples l))"
  from assms(1) have n: "0 < ?n" by simp
  from assms(2) have lo: "\<not> fle p fzero" by (rule flt_not_fle)
  from assms(3) have hi: "\<not> fge p (Fin 100 0)" unfolding fge_def by (rule flt_not_fle)
  from assms(1) lo hi
  have eq: "Percentile l p = sort (samples l) ! nat (Percentile_index p ?n)"
    by (simp add: Percentile_def Let_def)
  from Percentile_index_range [OF n, of p]
  have r: "0 \<le> Percentile_index p ?n" "Percentile_index p ?n < ?n" by simp_all
  then have "nat (Percentile_index p ?n) < length (sort (samples l))" by simp
  then have "sort (samples l) ! nat (Percentile_index p ?n) \<in> set (sort (samples l))"
    by (rule nth_mem)
  then have mem: "Percentile l p \<in> set (samples l)" by (simp add: eq)
  have ix: "Percentile_index p ?n
           = (let index = to_int (fmul (fdiv p (Fin 100 0)) (of_int64 (?n - 1)))
              in if index < 0 then 0 else if ?n \<le> index then ?n - 1 else index)"
    using n by (auto simp: Percentile_index_def Let_def)
  from eq ix r mem show ?thesis by blast
qed

theorem C7_percentile_truncates_witness:
  "samples \<lparr>samples = [30, 10, 20], maxSize = 512\<rparr> \<noteq> [] \<and>
   flt fzero (Fin 95 0) \<and> flt (Fin 95 0) (Fin 100 0) \<and>
   Percentile_index (Fin 95 0) 3 = 1 \<and>
   Percentile \<lparr>samples = [30, 10, 20], maxSize = 512\<rparr> (Fin 95 0) = 20"
proof -
  let ?l = "\<lparr>samples = [30, 10, 20], maxSize = 512\<rparr>"
  have s: "samples ?l \<noteq> []" by simp
  have lo: "flt fzero (Fin 95 0)" by code_simp
  have hi: "flt (Fin 95 0) (Fin 100 0)" by code_simp
  have ix: "Percentile_index (Fin 95 0) 3 = 1" by code_simp
  have srt: "sort [30, 10, 20 :: int] ! 1 = 20" by code_simp
  from C7_percentile_truncates [OF s lo hi]
  have "Percentile ?l (Fin 95 0) = sort (samples ?l) ! nat (Percentile_index (Fin 95 0) (int (length (samples ?l))))"
    by blast
  with ix srt have "Percentile ?l (Fin 95 0) = 20" by simp
  with s lo hi ix show ?thesis by blast
qed

subsection \<open>Decimal tokens\<close>

lemma digit_char_digit:
  assumes "0 \<le> d" and "d < 10"
  shows "is_digit (digit_char d) \<and> digit_val (digit_char d) = d"
proof -
  from assms have "d = 0 \<or> d = 1 \<or> d = 2 \<or> d = 3 \<or> d = 4 \<or> d = 5 \<or> d = 6 \<or> d = 7 \<or> d = 8 \<or> d = 9"
    by arith
  moreover have "is_digit (digit_char 0) \<and> digit_val (digit_char 0) = 0" by code_simp
  moreover have "is_digit (digit_char 1) \<and> digit_val (digit_char 1) = 1" by code_simp
  moreover have "is_digit (digit_char 2) \<and> digit_val (digit_char 2) = 2" by code_simp
  moreover have "is_digit (digit_char 3) \<and> digit_val (digit_char 3) = 3" by code_simp
  moreover have "is_digit (digit_char 4) \<and> digit_val (digit_char 4) = 4" by code_simp
  moreover have "is_digit (digit_char 5) \<and> digit_val (digit_char 5) = 5" by code_simp
  moreover have "is_digit (digit_char 6) \<and> digit_val (digit_char 6) = 6" by code_simp
  moreover have "is_digit (digit_char 7) \<and> digit_val (digit_char 7) = 7" by code_simp
  moreover have "is_digit (digit_char 8) \<and> digit_val (digit_char 8) = 8" by code_simp
  moreover have "is_digit (digit_char 9) \<and> digit_val (digit_char 9) = 9" by code_simp
  ultimately show ?thesis by blast
qed

lemma is_digit_not_sign: "is_digit c \<Longrightarrow> c \<noteq> CHR ''-'' \<and> c \<noteq> CHR ''+''"
  by (auto simp: is_digit_def less_eq_char_def)

lemma digits_val_snoc: "digits_val acc (cs @ [c]) = digits_val acc cs * 10 + digit_val c"
  by (induction cs arbitrary: acc) auto

lemma dec_digits_props:
  assumes "0 \<le> n"
  shows "dec_digits n \<noteq> [] \<and> list_all is_digit (dec_digits n) \<and> digits_val 0 (dec_digits n) = n"
  using assms
proof (induction n rule: dec_digits.induct)
  case (1 n)
  show ?case
  proof (cases "n < 10")
    case True
    with "1.prems" digit_char_digit [of n] show ?thesis
      by (subst (1 2 3) dec_digits.simps) simp
  next
    case False
    with "1.prems" have "0 \<le> n div 10" by simp
    with "1.IH" False have ih: "dec_digits (n div 10) \<noteq> []" "list_all is_digit (dec_digits (n div 10))"
      "digits_val 0 (dec_digits (n div 10)) = n div 10"
      by simp_all
    have d: "is_digit (digit_char (n mod 10))" "digit_val (digit_char (n mod 10)) = n mod 10"
      using digit_char_digit [of "n mod 10"] by simp_all
    from False ih d show ?thesis
      by (subst (1 2 3) dec_digits.simps) (simp add: digits_val_snoc)
  qed
qed

lemma Itoa_not_Nil: "Itoa n \<noteq> []"
proof (cases "n < 0")
  case True
  then show ?thesis by (simp add: Itoa_def)
next
  case False
  then show ?thesis using dec_digits_props [of n] by (simp add: Itoa_def)
qed

lemma Atoi_Itoa:
  assumes "0 \<le> n" and "n \<le> maxInt"
  shows "Atoi (Itoa n) = Some n"
proof -
  from assms(1) have p: "dec_digits n \<noteq> []" "list_all is_digit (dec_digits n)"
    "digits_val 0 (dec_digits n) = n"
    using dec_digits_props [of n] by simp_all
  then obtain c cs where cs: "dec_digits n = c # cs" by (cases "dec_digits n") auto
  with p(2) have "is_digit c" by simp
  then have "c \<noteq> CHR ''-''" "c \<noteq> CHR ''+''" using is_digit_not_sign by blast+
  with assms cs p show ?thesis
    by (simp add: Atoi_def Itoa_def minInt_def maxInt_def)
qed

lemma wrap_int64_id:
  assumes "minInt \<le> n" and "n \<le> maxInt"
  shows "wrap_int64 n = n"
  using assms by (simp add: wrap_int64_def minInt_def maxInt_def)

subsection \<open>Pages of \<open>ListCorrelations\<close>\<close>

text \<open>
  Claim C6 says that the page size is clamped to the interval from 1 to 100 and that a
  next-page token is returned if and only if the page is full.  A requested size of 150
  is not clamped to 100 but replaced by the default 20; and when the upstream cannot be
  reached, a request for pages of one correlation gets the one synthetic correlation,
  a full page, without a token.
\<close>

theorem C6_page_size_clamp_counterexample:
  "ListCorrelations_limit (ex_list_request 150 []) = 20 \<and>
   spec_page_size 150 = 100 \<and>
   ListCorrelations_limit (ex_list_request 1 []) = 1 \<and>
   ListCorrelations (Some ex_repo) ex_unavailable ex_clock (ex_list_request 1 [])
     = Inr (syntheticCorrelationList ex_clock (ex_list_request 1 [])) \<and>
   length (Correlations (syntheticCorrelationList ex_clock (ex_list_request 1 []))) = 1 \<and>
   NextPageToken (syntheticCorrelationList ex_clock (ex_list_request 1 [])) = []"
  by (simp add: ListCorrelations_limit_def ex_list_request_def spec_page_size_def
      ListCorrelations_def ex_repo_def ex_unavailable_def syntheticCorrelationList_def Let_def)

lemma ListCorrelations_offset_range:
  "0 \<le> ListCorrelations_offset req \<and> ListCorrelations_offset req \<le> maxInt"
  by (auto simp: ListCorrelations_offset_def Atoi_def Let_def maxInt_def
      split: option.splits if_splits prod.splits list.splits)

text \<open>
  Claim C6, amended.  \<open>ListCorrelations\<close> keeps a requested page size between 1 and 100
  and replaces every other size by 20.  The page token is read as a decimal offset: the
  decimal numeral of an offset \<open>n\<close> from 0 to the largest integer gives the offset \<open>n\<close>,
  and a token that is empty, not a numeral or negative gives 0.  When the upstream
  answers a query with \<open>count\<close> correlations, the response holds them, and it holds a
  next-page token exactly when \<open>count\<close> equals the page size: the decimal numeral of
  offset plus count (in 64-bit arithmetic), which the next call reads back as that
  offset.  Without an endpoint, or when the upstream cannot be reached, the response is
  the synthetic one and never has a token.
\<close>

theorem C6_pagination:
  "ListCorrelations_limit req
     = (if 1 \<le> PageSize req \<and> PageSize req \<le> 100 then PageSize req else 20) \<and>
   1 \<le> ListCorrelations_limit req \<and> ListCorrelations_limit req \<le> 100 \<and>
   (0 \<le> n \<and> n \<le> maxInt \<and> PageToken req = Itoa n \<longrightarrow> ListCorrelations_offset req = n) \<and>
   (PageToken req = [] \<or> Atoi (PageToken req) = None \<or> (\<exists>v < 0. Atoi (PageToken req) = Some v)
      \<longrightarrow> ListCorrelations_offset req = 0) \<and>
   (endpoint r \<noteq> [] \<and> http (ListCorrelations_query req) = Decoded correlations \<longrightarrow>
      ListCorrelations (Some r) http clock req
        = Inr \<lparr>Correlations = correlations,
               NextPageToken =
                 (if int (length correlations) = ListCorrelations_limit req
                  then Itoa (wrap_int64 (ListCorrelations_offset req + int (length correlations)))
                  else [])\<rparr> \<and>
      (\<forall>resp. ListCorrelations (Some r) http clock req = Inr resp \<longrightarrow>
         (NextPageToken resp \<noteq> [] \<longleftrightarrow> int (length correlations) = ListCorrelations_limit req) \<and>
         (int (length correlations) = ListCorrelations_limit req \<and>
          ListCorrelations_offset req + int (length correlations) \<le> maxInt \<longrightarrow>
            ListCorrelations_offset (req\<lparr>PageToken := NextPageToken resp\<rparr>)
              = ListCorrelations_offset req + int (length correlations)))) \<and>
   (endpoint r = [] \<or> http (ListCorrelations_query req) = Unavailable \<longrightarrow>
      ListCorrelations (Some r) http clock req = Inr (syntheticCorrelationList clock req) \<and>
      NextPageToken (syntheticCorrelationList clock req) = [])"
proof (intro conjI impI allI)
  show "ListCorrelations_limit req
     = (if 1 \<le> PageSize req \<and> PageSize req \<le> 100 then PageSize req else 20)"
    by (auto simp: ListCorrelations_limit_def)
  show "1 \<le> ListCorrelations_limit req" "ListCorrelations_limit req \<le> 100"
    by (auto simp: ListCorrelations_limit_def)
next
  assume "0 \<le> n \<and> n \<le> maxInt \<and> PageToken req = Itoa n"
  then show "ListCorrelations_offset req = n"
    by (simp add: ListCorrelations_offset_def Atoi_Itoa Itoa_not_Nil)
next
  assume "PageToken req = [] \<or> Atoi (PageToken req) = None \<or> (\<exists>v<0. Atoi (PageToken req) = Some v)"
  then show "ListCorrelations_offset req = 0"
    by (auto simp: ListCorrelations_offset_def)
next
  assume a: "endpoint r \<noteq> [] \<and> http (ListCorrelations_query req) = Decoded correlations"
  then show run: "ListCorrelations (Some r) http clock req
        = Inr \<lparr>Correlations = correlations,
               NextPageToken =
                 (if int (length correlations) = ListCorrelations_limit req
                  then Itoa (wrap_int64 (ListCorrelations_offset req + int (length correlations)))
                  else [])\<rparr>"
    by (simp add: ListCorrelations_def Let_def)
  fix resp assume "ListCorrelations (Some r) http clock req = Inr resp"
  with run have resp: "NextPageToken resp =
                 (if int (length correlations) = ListCorrelations_limit req
                  then Itoa (wrap_int64 (ListCorrelations_offset req + int (length correlations)))
                  else [])"
    by auto
  then show "(NextPageToken resp \<noteq> []) = (int (length correlations) = ListCorrelations_limit req)"
    by (simp add: Itoa_not_Nil)
  assume full: "int (length correlations) = ListCorrelations_limit req \<and>
          ListCorrelations_offset req + int (length correlations) \<le> maxInt"
  let ?next = "ListCorrelations_offset req + int (length correlations)"
  from ListCorrelations_offset_range [of req] have nn: "0 \<le> ?next" by simp
  with full have w: "wrap_int64 ?next = ?next"
    by (intro wrap_int64_id) (simp_all add: minInt_def)
  from full resp w have tok: "NextPageToken resp = Itoa ?next" by simp
  from nn full show "ListCorrelations_offset (req\<lparr>PageToken := NextPageToken resp\<rparr>) = ?next"
    by (simp add: ListCorrelations_offset_def tok Atoi_Itoa Itoa_not_Nil)
next
  assume "endpoint r = [] \<or> http (ListCorrelations_query req) = Unavailable"
  then show "ListCorrelations (Some r) http clock req = Inr (syntheticCorrelationList clock req)"
    by (auto simp: ListCorrelations_def Let_def)
  show "NextPageToken (syntheticCorrelationList clock req) = []"
    by (simp add: syntheticCorrelationList_def Let_def)
qed

theorem C6_pagination_witness:
  "endpoint ex_repo \<noteq> [] \<and>
   ex_history [ex_correlation ''corr-1'', ex_correlation ''corr-2'', ex_correlation ''corr-3'']
     (ListCorrelations_query (ex_list_request 2 []))
     = Decoded [ex_correlation ''corr-1'', ex_correlation ''corr-2''] \<and>
   ListCorrelations (Some ex_repo)
     (ex_history [ex_correlation ''corr-1'', ex_correlation ''corr-2'', ex_correlation ''corr-3''])
     ex_clock (ex_list_request 2 [])
     = Inr \<lparr>Correlations = [ex_correlation ''corr-1'', ex_correlation ''corr-2''],
            NextPageToken = ''2''\<rparr> \<and>
   (0::int) \<le> 2 \<and> 2 \<le> maxInt \<and> PageToken (ex_list_request 2 ''2'') = Itoa 2 \<and>
   ListCorrelations_offset (ex_list_request 2 ''2'') = 2 \<and>
   ex_history [ex_correlation ''corr-1'', ex_correlation ''corr-2'', ex_correlation ''corr-3'']
     (ListCorrelations_query (ex_list_request 2 ''2''))
     = Decoded [ex_correlation ''corr-3''] \<and>
   ListCorrelations (Some ex_repo)
     (ex_history [ex_correlation ''corr-1'', ex_correlation ''corr-2'', ex_correlation ''corr-3''])
     ex_clock (ex_list_request 2 ''2'')
     = Inr \<lparr>Correlations = [ex_correlation ''corr-3''], NextPageToken = []\<rparr> \<and>
   ListCorrelations (Some ex_repo) ex_unavailable ex_clock (ex_list_request 2 [])
     = Inr (syntheticCorrelationList ex_clock (ex_list_request 2 []))"
proof -
  let ?recs = "[ex_correlation ''corr-1'', ex_correlation ''corr-2'', ex_correlation ''corr-3'']"
  have e: "endpoint ex_repo \<noteq> []"
    by (simp add: ex_repo_def)
  have tok: "Itoa 2 = ''2''" "Itoa (wrap_int64 2) = ''2''"
    by code_simp+
  have rng: "(0::int) \<le> 2" "2 \<le> maxInt" "PageToken (ex_list_request 2 ''2'') = Itoa 2"
    by (simp_all add: maxInt_def ex_list_request_def tok)
  from C6_pagination [of "ex_list_request 2 ''2''" 2] rng
  have off2: "ListCorrelations_offset (ex_list_request 2 ''2'') = 2"
    by blast
  have off1: "ListCorrelations_offset (ex_list_request 2 []) = 0"
    by (simp add: ListCorrelations_offset_def ex_list_request_def)
  have lim: "ListCorrelations_limit (ex_list_request 2 tk) = 2" for tk
    by (simp add: ListCorrelations_limit_def ex_list_request_def)
  have q1: "ex_history ?recs (ListCorrelations_query (ex_list_request 2 []))
     = Decoded [ex_correlation ''corr-1'', ex_correlation ''corr-2'']"
    by (simp add: ex_history_def ListCorrelations_query_def lim off1)
  have q2: "ex_history ?recs (ListCorrelations_query (ex_list_request 2 ''2''))
     = Decoded [ex_correlation ''corr-3'']"
    by (simp add: ex_history_def ListCorrelations_query_def lim off2)
  from C6_pagination [of "ex_list_request 2 []" _ ex_repo "ex_history ?recs"
      "[ex_correlation ''corr-1'', ex_correlation ''corr-2'']" ex_clock] e q1
  have r1: "ListCorrelations (Some ex_repo) (ex_history ?recs) ex_clock (ex_list_request 2 [])
     = Inr \<lparr>Correlations = [ex_correlation ''corr-1'', ex_correlation ''corr-2''],
            NextPageToken = ''2''\<rparr>"
    by (simp add: lim off1 tok)
  from C6_pagination [of "ex_list_request 2 ''2''" _ ex_repo "ex_history ?recs"
      "[ex_correlation ''corr-3'']" ex_clock] e q2
  have r2: "ListCorrelations (Some ex_repo) (ex_history ?recs) ex_clock (ex_list_request 2 ''2'')
     = Inr \<lparr>Correlations = [ex_correlation ''corr-3''], NextPageToken = []\<rparr>"
    by (simp add: lim)
  have u: "ex_unavailable (ListCorrelations_query (ex_list_request 2 [])) = Unavailable"
    by (simp add: ex_unavailable_def)
  from C6_pagination [of "ex_list_request 2 []" _ ex_repo ex_unavailable _ ex_clock] u
  have r3: "ListCorrelations (Some ex_repo) ex_unavailable ex_clock (ex_list_request 2 [])
     = Inr (syntheticCorrelationList ex_clock (ex_list_request 2 []))"
    by blast
  from e q1 r1 rng off2 q2 r2 r3 show ?thesis
    by (intro conjI)
qed

subsection \<open>The order of the floating-point comparisons\<close>

lemma pow2_eq: "pow2 k = 2 ^ nat k"
proof (induction k rule: pow2.induct)
  case (1 k)
  show ?case
  proof (cases "k \<le> 0")
    case True
    then show ?thesis by (subst pow2.simps) simp
  next
    case False
    then have "nat k = Suc (nat (k - 1))" by simp
    with False "1.IH" show ?thesis by (subst pow2.simps) simp
  qed
qed

lemma nat_diff_split_via:
  fixes a b c :: int
  assumes "a \<le> b" and "b \<le> c"
  shows "nat (c - a) = nat (c - b) + nat (b - a)"
  using assms by arith

lemma flt_Fin_scale:
  assumes "e \<le> e1" and "e \<le> e2"
  shows "flt (Fin m1 e1) (Fin m2 e2) \<longleftrightarrow> m1 * 2 ^ nat (e1 - e) < m2 * 2 ^ nat (e2 - e)"
proof -
  let ?em = "min e1 e2"
  from assms have s1: "nat (e1 - e) = nat (e1 - ?em) + nat (?em - e)"
    by (intro nat_diff_split_via) simp_all
  from assms have s2: "nat (e2 - e) = nat (e2 - ?em) + nat (?em - e)"
    by (intro nat_diff_split_via) simp_all
  have pos: "(0::int) < 2 ^ nat (?em - e)" by simp
  have "m1 * 2 ^ nat (e1 - e) < m2 * 2 ^ nat (e2 - e)
      \<longleftrightarrow> (m1 * 2 ^ nat (e1 - ?em)) * 2 ^ nat (?em - e) < (m2 * 2 ^ nat (e2 - ?em)) * 2 ^ nat (?em - e)"
    by (simp only: s1 s2 power_add mult.assoc)
  also have "\<dots> \<longleftrightarrow> m1 * 2 ^ nat (e1 - ?em) < m2 * 2 ^ nat (e2 - ?em)"
    using pos by (simp only: mult_less_cancel_right_pos)
  finally show ?thesis
    by (simp add: Let_def pow2_eq)
qed

lemma flt_trans: "flt a b \<Longrightarrow> flt b c \<Longrightarrow> flt a c"
proof (cases a; cases b; cases c)
  fix m1 e1 m2 e2 m3 e3
  assume a: "a = Fin m1 e1" and b: "b = Fin m2 e2" and c: "c = Fin m3 e3"
    and ab: "flt a b" and bc: "flt b c"
  let ?e = "min e1 (min e2 e3)"
  have le: "?e \<le> e1" "?e \<le> e2" "?e \<le> e3" by simp_all
  from ab have "m1 * 2 ^ nat (e1 - ?e) < m2 * 2 ^ nat (e2 - ?e)"
    unfolding a b flt_Fin_scale [OF le(1) le(2)] .
  moreover from bc have "m2 * 2 ^ nat (e2 - ?e) < m3 * 2 ^ nat (e3 - ?e)"
    unfolding b c flt_Fin_scale [OF le(2) le(3)] .
  ultimately show "flt a c"
    unfolding a c flt_Fin_scale [OF le(1) le(3)] by simp
qed simp_all

lemma not_fgt_step: "\<not> fgt e b \<Longrightarrow> fgt x b \<Longrightarrow> \<not> fgt e x"
  unfolding fgt_def by (blast intro: flt_trans)

lemma fgt_irrefl: "\<not> fgt x x"
  unfolding fgt_def by (cases x) simp_all

subsection \<open>The edge that \<open>Evaluate\<close> suggests\<close>

text \<open>
  Claim C4 says that the two rankings never mix and that a time-supporting edge wins
  whenever there is one.  The loop keeps one running best for both kinds: after the
  error-supporting edge from \<open>auth\<close> (call rate 100), the time-supporting edge from
  \<open>cache\<close> (call rate 50) does not replace it, because 50 is not above 100.
\<close>

theorem C4_rankings_mix_counterexample:
  "error_supporting ex_orbit ''checkout'' [ex_event ''cache'' 100, ex_event ''checkout'' 200]
     (ex_edge ''auth'' ''checkout'' (Fin 100 0) (flit 5 10)) \<and>
   \<not> time_supporting ex_orbit ''checkout'' [ex_event ''cache'' 100, ex_event ''checkout'' 200]
     (ex_edge ''auth'' ''checkout'' (Fin 100 0) (flit 5 10)) \<and>
   time_supporting ex_orbit ''checkout'' [ex_event ''cache'' 100, ex_event ''checkout'' 200]
     (ex_edge ''cache'' ''checkout'' (Fin 50 0) (Fin 0 0)) \<and>
   SuggestedService
     (Evaluate ex_orbit ''checkout'' [ex_event ''cache'' 100, ex_event ''checkout'' 200]
        [ex_edge ''auth'' ''checkout'' (Fin 100 0) (flit 5 10),
         ex_edge ''cache'' ''checkout'' (Fin 50 0) (Fin 0 0)]) = ''auth''"
  by code_simp

lemma runes_Nil_iff: "runes s = [] \<longleftrightarrow> s = []"
  by (cases s) (simp_all split: prod.split)

lemma EqualFold_not_Nil: "EqualFold orbit t r \<Longrightarrow> r \<noteq> [] \<Longrightarrow> t \<noteq> []"
  using runes_Nil_iff [of r] by (auto simp: EqualFold_def)

lemma suggestedEdgeSet_no_edge: "\<not> suggestedEdgeSet no_edge"
  by (simp add: suggestedEdgeSet_def no_edge_def)

lemma suggestedEdgeSet_upstream:
  "EqualFold orbit (Target edge) rootService \<Longrightarrow> rootService \<noteq> [] \<Longrightarrow> suggestedEdgeSet edge"
  by (auto simp: suggestedEdgeSet_def dest: EqualFold_not_Nil)

lemma Evaluate_loop_Nil:
  "Evaluate_loop orbit rootService timeline []
     = \<lparr>totalUpstream = 0, supporting = 0, resultNotes = [], suggested = no_edge\<rparr>"
  by (simp add: Evaluate_loop_def)

lemma Evaluate_loop_snoc:
  "Evaluate_loop orbit rootService timeline (edges @ [edge])
     = Evaluate_edge orbit rootService timeline (Evaluate_rootTime orbit rootService timeline)
         (Evaluate_loop orbit rootService timeline edges) edge"
  by (simp add: Evaluate_loop_def)

lemma suggested_Evaluate_edge_error:
  assumes "error_supporting orbit rootService timeline edge"
  shows "suggested (Evaluate_edge orbit rootService timeline rootTime st edge)
       = (if \<not> suggestedEdgeSet (suggested st) \<or> fgt (ErrorRate edge) (ErrorRate (suggested st))
          then edge else suggested st)"
  using assms by (simp add: Evaluate_edge_def error_supporting_def Let_def)

lemma suggested_Evaluate_edge_time:
  assumes "time_supporting orbit rootService timeline edge"
  shows "suggested (Evaluate_edge orbit rootService timeline
                      (Evaluate_rootTime orbit rootService timeline) st edge)
       = (if \<not> suggestedEdgeSet (suggested st) \<or> fgt (CallRate edge) (CallRate (suggested st))
          then edge else suggested st)"
  using assms by (simp add: Evaluate_edge_def time_supporting_def Let_def)

lemma suggested_Evaluate_edge_other:
  assumes "\<not> error_supporting orbit rootService timeline edge"
    and "\<not> time_supporting orbit rootService timeline edge"
  shows "suggested (Evaluate_edge orbit rootService timeline
                      (Evaluate_rootTime orbit rootService timeline) st edge)
       = suggested st"
  using assms by (auto simp: Evaluate_edge_def error_supporting_def time_supporting_def Let_def)

lemma not_both_supporting:
  "error_supporting orbit rootService timeline edge \<Longrightarrow>
   \<not> time_supporting orbit rootService timeline edge"
  by (simp add: error_supporting_def time_supporting_def)

lemma totalUpstream_Evaluate_edge:
  "totalUpstream (Evaluate_edge orbit rootService timeline rootTime st edge)
     = (if EqualFold orbit (Target edge) rootService then totalUpstream st + 1 else totalUpstream st)"
  by (simp add: Evaluate_edge_def Let_def)

lemma totalUpstream_Evaluate_loop:
  "totalUpstream (Evaluate_loop orbit rootService timeline edges)
     = int (length (filter (\<lambda>edge. EqualFold orbit (Target edge) rootService) edges))"
  by (induction edges rule: rev_induct)
     (simp_all add: Evaluate_loop_Nil Evaluate_loop_snoc totalUpstream_Evaluate_edge)

lemma totalUpstream_pos:
  assumes "edge \<in> set edges" and "EqualFold orbit (Target edge) rootService"
  shows "totalUpstream (Evaluate_loop orbit rootService timeline edges) \<noteq> 0"
proof -
  from assms have "edge \<in> set (filter (\<lambda>edge. EqualFold orbit (Target edge) rootService) edges)"
    by simp
  then have "filter (\<lambda>edge. EqualFold orbit (Target edge) rootService) edges \<noteq> []"
    by (metis empty_iff empty_set)
  then show ?thesis
    by (simp add: totalUpstream_Evaluate_loop)
qed

lemma running_best_step_error:
  assumes "error_supporting orbit rootService timeline edge"
  shows "running_best_step orbit rootService timeline best edge
       = (case best of
            None \<Rightarrow> Some edge
          | Some b \<Rightarrow> if fgt (ErrorRate edge) (ErrorRate b) then Some edge else Some b)"
  using assms by (simp add: running_best_step_def)

lemma running_best_step_time:
  assumes "time_supporting orbit rootService timeline edge"
  shows "running_best_step orbit rootService timeline best edge
       = (case best of
            None \<Rightarrow> Some edge
          | Some b \<Rightarrow> if fgt (CallRate edge) (CallRate b) then Some edge else Some b)"
  using assms not_both_supporting [of orbit rootService timeline edge]
  by (auto simp: running_best_step_def)

lemma running_best_step_other:
  assumes "\<not> error_supporting orbit rootService timeline edge"
    and "\<not> time_supporting orbit rootService timeline edge"
  shows "running_best_step orbit rootService timeline best edge = best"
  using assms by (simp add: running_best_step_def)

text \<open>
  The local \<open>suggested\<close> after the loop is the running best: the zero edge when there is
  none, and an upstream edge of the list otherwise.
\<close>

lemma suggested_running_best:
  assumes root: "rootService \<noteq> []"
  shows "(case foldl (running_best_step orbit rootService timeline) None edges of
            None \<Rightarrow> suggested (Evaluate_loop orbit rootService timeline edges) = no_edge
          | Some b \<Rightarrow> suggested (Evaluate_loop orbit rootService timeline edges) = b
                      \<and> b \<in> set edges \<and> EqualFold orbit (Target b) rootService)"
proof (induction edges rule: rev_induct)
  case Nil
  show ?case by (simp add: Evaluate_loop_Nil)
next
  case (snoc x xs)
  let ?st = "Evaluate_loop orbit rootService timeline xs"
  let ?best = "foldl (running_best_step orbit rootService timeline) None xs"
  have step: "foldl (running_best_step orbit rootService timeline) None (xs @ [x])
                = running_best_step orbit rootService timeline ?best x"
    by simp
  consider (err) "error_supporting orbit rootService timeline x"
    | (tim) "time_supporting orbit rootService timeline x"
    | (oth) "\<not> error_supporting orbit rootService timeline x"
            "\<not> time_supporting orbit rootService timeline x"
    by blast
  then show ?case
  proof cases
    case err
    then have up: "EqualFold orbit (Target x) rootService"
      by (simp add: error_supporting_def)
    have new: "suggested (Evaluate_loop orbit rootService timeline (xs @ [x]))
       = (if \<not> suggestedEdgeSet (suggested ?st) \<or> fgt (ErrorRate x) (ErrorRate (suggested ?st))
          then x else suggested ?st)"
      using err by (simp add: Evaluate_loop_snoc suggested_Evaluate_edge_error)
    show ?thesis
    proof (cases ?best)
      case None
      with snoc.IH have "suggested ?st = no_edge" by simp
      with new None up show ?thesis
        unfolding step running_best_step_error [OF err] by (simp add: suggestedEdgeSet_no_edge)
    next
      case (Some b)
      with snoc.IH have b: "suggested ?st = b" "b \<in> set xs" "EqualFold orbit (Target b) rootService"
        by simp_all
      from b(3) root have "suggestedEdgeSet b" by (rule suggestedEdgeSet_upstream)
      with new Some up b show ?thesis
        unfolding step running_best_step_error [OF err] by simp
    qed
  next
    case tim
    then have up: "EqualFold orbit (Target x) rootService"
      by (simp add: time_supporting_def)
    from tim have nerr: "\<not> error_supporting orbit rootService timeline x"
      using not_both_supporting by blast
    have new: "suggested (Evaluate_loop orbit rootService timeline (xs @ [x]))
       = (if \<not> suggestedEdgeSet (suggested ?st) \<or> fgt (CallRate x) (CallRate (suggested ?st))
          then x else suggested ?st)"
      using tim by (simp add: Evaluate_loop_snoc suggested_Evaluate_edge_time)
    show ?thesis
    proof (cases ?best)
      case None
      with snoc.IH have "suggested ?st = no_edge" by simp
      with new None up show ?thesis
        unfolding step running_best_step_time [OF tim] by (simp add: suggestedEdgeSet_no_edge)
    next
      case (Some b)
      with snoc.IH have b: "suggested ?st = b" "b \<in> set xs" "EqualFold orbit (Target b) rootService"
        by simp_all
      from b(3) root have "suggestedEdgeSet b" by (rule suggestedEdgeSet_upstream)
      with new Some up b show ?thesis
        unfolding step running_best_step_time [OF tim] by simp
    qed
  next
    case oth
    then have "suggested (Evaluate_loop orbit rootService timeline (xs @ [x])) = suggested ?st"
      by (simp add: Evaluate_loop_snoc suggested_Evaluate_edge_other)
    with snoc.IH show ?thesis
      unfolding step running_best_step_other [OF oth] by (auto split: option.splits)
  qed
qed

lemma SuggestedService_running_best:
  "SuggestedService (Evaluate orbit rootService timeline edges)
     = (case running_best orbit rootService timeline edges of None \<Rightarrow> [] | Some b \<Rightarrow> Source b)"
proof (cases "rootService = [] \<or> timeline = []")
  case True
  then show ?thesis
    by (auto simp: Evaluate_def running_best_def)
next
  case False
  then have root: "rootService \<noteq> []" and tl: "timeline \<noteq> []" by simp_all
  let ?best = "foldl (running_best_step orbit rootService timeline) None edges"
  have rb: "running_best orbit rootService timeline edges = ?best"
    using False by (simp add: running_best_def)
  note sb = suggested_running_best [OF root, of orbit timeline edges]
  show ?thesis
  proof (cases ?best)
    case None
    with sb have "suggested (Evaluate_loop orbit rootService timeline edges) = no_edge" by simp
    with None rb show ?thesis
      by (simp add: Evaluate_def Let_def suggestedEdgeSet_no_edge)
  next
    case (Some b)
    with sb have b: "suggested (Evaluate_loop orbit rootService timeline edges) = b"
      "b \<in> set edges" "EqualFold orbit (Target b) rootService"
      by simp_all
    from b(2) have ne: "edges \<noteq> []" by auto
    from b(3) root have "suggestedEdgeSet b" by (rule suggestedEdgeSet_upstream)
    with Some rb b(1) root tl ne totalUpstream_pos [OF b(2,3), of timeline] show ?thesis
      by (simp add: Evaluate_def Let_def)
  qed
qed

text \<open>
  When no edge is of the other kind, the running best is a supporting edge whose rate
  no supporting edge exceeds.
\<close>

lemma running_best_error_class:
  assumes "\<forall>e \<in> set edges. \<not> time_supporting orbit rootService timeline e"
  shows "case foldl (running_best_step orbit rootService timeline) None edges of
           None \<Rightarrow> \<forall>e \<in> set edges. \<not> error_supporting orbit rootService timeline e
         | Some b \<Rightarrow> b \<in> set edges \<and> error_supporting orbit rootService timeline b
                     \<and> (\<forall>e \<in> set edges. error_supporting orbit rootService timeline e \<longrightarrow>
                            \<not> fgt (ErrorRate e) (ErrorRate b))"
  using assms
proof (induction edges rule: rev_induct)
  case Nil
  show ?case by simp
next
  case (snoc x xs)
  let ?best = "foldl (running_best_step orbit rootService timeline) None xs"
  let ?sup = "error_supporting orbit rootService timeline"
  from snoc.prems have tx: "\<not> time_supporting orbit rootService timeline x" by simp
  from snoc.prems have
    ih: "case ?best of
           None \<Rightarrow> \<forall>e \<in> set xs. \<not> ?sup e
         | Some b \<Rightarrow> b \<in> set xs \<and> ?sup b
                     \<and> (\<forall>e \<in> set xs. ?sup e \<longrightarrow> \<not> fgt (ErrorRate e) (ErrorRate b))"
    by (intro snoc.IH) simp
  show ?case
  proof (cases "?sup x")
    case False
    with tx have "running_best_step orbit rootService timeline ?best x = ?best"
      by (simp add: running_best_step_other)
    with False ih show ?thesis
      by (auto split: option.splits)
  next
    case True
    show ?thesis
    proof (cases ?best)
      case None
      with ih True show ?thesis
        by (simp add: running_best_step_error [OF True] fgt_irrefl)
    next
      case (Some b)
      with ih have b: "b \<in> set xs" "?sup b"
        "\<forall>e \<in> set xs. ?sup e \<longrightarrow> \<not> fgt (ErrorRate e) (ErrorRate b)"
        by simp_all
      show ?thesis
      proof (cases "fgt (ErrorRate x) (ErrorRate b)")
        case gt: True
        with b(3) have "\<forall>e \<in> set xs. ?sup e \<longrightarrow> \<not> fgt (ErrorRate e) (ErrorRate x)"
          using not_fgt_step by blast
        with Some True gt show ?thesis
          by (simp add: running_best_step_error [OF True] fgt_irrefl)
      next
        case False
        with Some True b show ?thesis
          by (simp add: running_best_step_error [OF True])
      qed
    qed
  qed
qed

lemma running_best_time_class:
  assumes "\<forall>e \<in> set edges. \<not> error_supporting orbit rootService timeline e"
  shows "case foldl (running_best_step orbit rootService timeline) None edges of
           None \<Rightarrow> \<forall>e \<in> set edges. \<not> time_supporting orbit rootService timeline e
         | Some b \<Rightarrow> b \<in> set edges \<and> time_supporting orbit rootService timeline b
                     \<and> (\<forall>e \<in> set edges. time_supporting orbit rootService timeline e \<longrightarrow>
                            \<not> fgt (CallRate e) (CallRate b))"
  using assms
proof (induction edges rule: rev_induct)
  case Nil
  show ?case by simp
next
  case (snoc x xs)
  let ?best = "foldl (running_best_step orbit rootService timeline) None xs"
  let ?sup = "time_supporting orbit rootService timeline"
  from snoc.prems have tx: "\<not> error_supporting orbit rootService timeline x" by simp
  from snoc.prems have
    ih: "case ?best of
           None \<Rightarrow> \<forall>e \<in> set xs. \<not> ?sup e
         | Some b \<Rightarrow> b \<in> set xs \<and> ?sup b
                     \<and> (\<forall>e \<in> set xs. ?sup e \<longrightarrow> \<not> fgt (CallRate e) (CallRate b))"
    by (intro snoc.IH) simp
  show ?case
  proof (cases "?sup x")
    case False
    with tx have "running_best_step orbit rootService timeline ?best x = ?best"
      by (simp add: running_best_step_other)
    with False ih show ?thesis
      by (auto split: option.splits)
  next
    case True
    show ?thesis
    proof (cases ?best)
      case None
      with ih True show ?thesis
        by (simp add: running_best_step_time [OF True] fgt_irrefl)
    next
      case (Some b)
      with ih have b: "b \<in> set xs" "?sup b"
        "\<forall>e \<in> set xs. ?sup e \<longrightarrow> \<not> fgt (CallRate e) (CallRate b)"
        by simp_all
      show ?thesis
      proof (cases "fgt (CallRate x) (CallRate b)")
        case gt: True
        with b(3) have "\<forall>e \<in> set xs. ?sup e \<longrightarrow> \<not> fgt (CallRate e) (CallRate x)"
          using not_fgt_step by blast
        with Some True gt show ?thesis
          by (simp add: running_best_step_time [OF True] fgt_irrefl)
      next
        case False
        with Some True b show ?thesis
          by (simp add: running_best_step_time [OF True])
      qed
    qed
  qed
qed

lemma no_support_no_suggestion:
  assumes "\<forall>e \<in> set edges. \<not> error_supporting orbit rootService timeline e"
    and "\<forall>e \<in> set edges. \<not> time_supporting orbit rootService timeline e"
  shows "foldl (running_best_step orbit rootService timeline) None edges = None"
  using assms
  by (induction edges rule: rev_induct) (simp_all add: running_best_step_other)

lemma running_best_None:
  assumes "foldl (running_best_step orbit rootService timeline) None edges = None"
  shows "running_best orbit rootService timeline edges = None"
  using assms by (simp add: running_best_def)

text \<open>
  Claim C4, amended.  \<open>Evaluate\<close> keeps a single running best over the upstream edges
  in their order, and suggests the source of the last best (nothing when there is
  none, or when the root service or the timeline is empty): an error-supporting edge
  replaces the best when there is none or when its error rate is strictly above the
  error rate of the best, a time-supporting edge when there is none or when its call
  rate is strictly above the call rate of the best; that is \<open>running_best\<close>.  So, for a
  non-empty root service and timeline: when there are supporting edges and all are
  error-supporting, the suggestion is one of them, and no supporting edge has an error
  rate above its error rate; when all are time-supporting, the suggestion is one of
  them, and no supporting edge has a call rate above its call rate.  Without a
  supporting edge nothing is suggested.  When both kinds are present the comparisons
  mix and neither kind is preferred.
\<close>

theorem C4_running_best:
  "SuggestedService (Evaluate orbit rootService timeline edges)
     = (case running_best orbit rootService timeline edges of None \<Rightarrow> [] | Some b \<Rightarrow> Source b) \<and>
   (rootService \<noteq> [] \<and> timeline \<noteq> [] \<and>
    (\<exists>e \<in> set edges. error_supporting orbit rootService timeline e) \<and>
    (\<forall>e \<in> set edges. \<not> time_supporting orbit rootService timeline e) \<longrightarrow>
      (\<exists>b \<in> set edges. error_supporting orbit rootService timeline b \<and>
         SuggestedService (Evaluate orbit rootService timeline edges) = Source b \<and>
         (\<forall>e \<in> set edges. error_supporting orbit rootService timeline e \<longrightarrow>
            \<not> fgt (ErrorRate e) (ErrorRate b)))) \<and>
   (rootService \<noteq> [] \<and> timeline \<noteq> [] \<and>
    (\<exists>e \<in> set edges. time_supporting orbit rootService timeline e) \<and>
    (\<forall>e \<in> set edges. \<not> error_supporting orbit rootService timeline e) \<longrightarrow>
      (\<exists>b \<in> set edges. time_supporting orbit rootService timeline b \<and>
         SuggestedService (Evaluate orbit rootService timeline edges) = Source b \<and>
         (\<forall>e \<in> set edges. time_supporting orbit rootService timeline e \<longrightarrow>
            \<not> fgt (CallRate e) (CallRate b)))) \<and>
   ((\<forall>e \<in> set edges. \<not> error_supporting orbit rootService timeline e \<and>
                        \<not> time_supporting orbit rootService timeline e) \<longrightarrow>
      SuggestedService (Evaluate orbit rootService timeline edges) = [])"
proof (intro conjI impI)
  let ?best = "foldl (running_best_step orbit rootService timeline) None edges"
  show "SuggestedService (Evaluate orbit rootService timeline edges)
     = (case running_best orbit rootService timeline edges of None \<Rightarrow> [] | Some b \<Rightarrow> Source b)"
    by (rule SuggestedService_running_best)
  {
    assume a: "rootService \<noteq> [] \<and> timeline \<noteq> [] \<and>
      (\<exists>e \<in> set edges. error_supporting orbit rootService timeline e) \<and>
      (\<forall>e \<in> set edges. \<not> time_supporting orbit rootService timeline e)"
    then have rb: "running_best orbit rootService timeline edges = ?best"
      by (simp add: running_best_def)
    from a running_best_error_class [of edges orbit rootService timeline]
    obtain b where b: "?best = Some b" "b \<in> set edges" "error_supporting orbit rootService timeline b"
      "\<forall>e \<in> set edges. error_supporting orbit rootService timeline e \<longrightarrow>
         \<not> fgt (ErrorRate e) (ErrorRate b)"
      by (cases ?best) auto
    from rb b(1) have "SuggestedService (Evaluate orbit rootService timeline edges) = Source b"
      by (simp add: SuggestedService_running_best)
    with b
    show "\<exists>b \<in> set edges. error_supporting orbit rootService timeline b \<and>
         SuggestedService (Evaluate orbit rootService timeline edges) = Source b \<and>
         (\<forall>e \<in> set edges. error_supporting orbit rootService timeline e \<longrightarrow>
            \<not> fgt (ErrorRate e) (ErrorRate b))"
      by blast
  }
  {
    assume a: "rootService \<noteq> [] \<and> timeline \<noteq> [] \<and>
      (\<exists>e \<in> set edges. time_supporting orbit rootService timeline e) \<and>
      (\<forall>e \<in> set edges. \<not> error_supporting orbit rootService timeline e)"
    then have rb: "running_best orbit rootService timeline edges = ?best"
      by (simp add: running_best_def)
    from a running_best_time_class [of edges orbit rootService timeline]
    obtain b where b: "?best = Some b" "b \<in> set edges" "time_supporting orbit rootService timeline b"
      "\<forall>e \<in> set edges. time_supporting orbit rootService timeline e \<longrightarrow>
         \<not> fgt (CallRate e) (CallRate b)"
      by (cases ?best) auto
    from rb b(1) have "SuggestedService (Evaluate orbit rootService timeline edges) = Source b"
      by (simp add: SuggestedService_running_best)
    with b
    show "\<exists>b \<in> set edges. time_supporting orbit rootService timeline b \<and>
         SuggestedService (Evaluate orbit rootService timeline edges) = Source b \<and>
         (\<forall>e \<in> set edges. time_supporting orbit rootService timeline e \<longrightarrow>
            \<not> fgt (CallRate e) (CallRate b))"
      by blast
  }
  {
    assume "\<forall>e \<in> set edges. \<not> error_supporting orbit rootService timeline e \<and>
                          \<not> time_supporting orbit rootService timeline e"
    then have "?best = None"
      by (intro no_support_no_suggestion) simp_all
    then have "running_best orbit rootService timeline edges = None"
      by (rule running_best_None)
    then show "SuggestedService (Evaluate orbit rootService timeline edges) = []"
      by (simp add: SuggestedService_running_best)
  }
qed

theorem C4_running_best_witness:
  "''checkout'' \<noteq> [] \<and>
   [ex_event ''cache'' 100, ex_event ''db'' 150, ex_event ''checkout'' 200] \<noteq> [] \<and>
   time_supporting ex_orbit ''checkout''
     [ex_event ''cache'' 100, ex_event ''db'' 150, ex_event ''checkout'' 200]
     (ex_edge ''cache'' ''checkout'' (Fin 50 0) (Fin 0 0)) \<and>
   time_supporting ex_orbit ''checkout''
     [ex_event ''cache'' 100, ex_event ''db'' 150, ex_event ''checkout'' 200]
     (ex_edge ''db'' ''checkout'' (Fin 80 0) (flit 5 10)) \<and>
   \<not> error_supporting ex_orbit ''checkout''
     [ex_event ''cache'' 100, ex_event ''db'' 150, ex_event ''checkout'' 200]
     (ex_edge ''cache'' ''checkout'' (Fin 50 0) (Fin 0 0)) \<and>
   \<not> error_supporting ex_orbit ''checkout''
     [ex_event ''cache'' 100, ex_event ''db'' 150, ex_event ''checkout'' 200]
     (ex_edge ''db'' ''checkout'' (Fin 80 0) (flit 5 10)) \<and>
   fgt (CallRate (ex_edge ''db'' ''checkout'' (Fin 80 0) (flit 5 10)))
       (CallRate (ex_edge ''cache'' ''checkout'' (Fin 50 0) (Fin 0 0))) \<and>
   running_best ex_orbit ''checkout''
     [ex_event ''cache'' 100, ex_event ''db'' 150, ex_event ''checkout'' 200]
     [ex_edge ''cache'' ''checkout'' (Fin 50 0) (Fin 0 0),
      ex_edge ''db'' ''checkout'' (Fin 80 0) (flit 5 10)]
     = Some (ex_edge ''db'' ''checkout'' (Fin 80 0) (flit 5 10)) \<and>
   SuggestedService
     (Evaluate ex_orbit ''checkout''
        [ex_event ''cache'' 100, ex_event ''db'' 150, ex_event ''checkout'' 200]
        [ex_edge ''cache'' ''checkout'' (Fin 50 0) (Fin 0 0),
         ex_edge ''db'' ''checkout'' (Fin 80 0) (flit 5 10)]) = ''db''"
proof -
  let ?tl = "[ex_event ''cache'' 100, ex_event ''db'' 150, ex_event ''checkout'' 200]"
  let ?a = "ex_edge ''cache'' ''checkout'' (Fin 50 0) (Fin 0 0)"
  let ?b = "ex_edge ''db'' ''checkout'' (Fin 80 0) (flit 5 10)"
  have r: "''checkout'' \<noteq> []" and t: "?tl \<noteq> []" by simp_all
  have ta: "time_supporting ex_orbit ''checkout'' ?tl ?a"
    and tb: "time_supporting ex_orbit ''checkout'' ?tl ?b"
    by code_simp+
  have ea: "\<not> error_supporting ex_orbit ''checkout'' ?tl ?a"
    and eb: "\<not> error_supporting ex_orbit ''checkout'' ?tl ?b"
    by code_simp+
  have src: "Source ?a = ''cache''" "Source ?b = ''db''"
    by (simp_all add: ex_edge_def)
  have gt: "fgt (CallRate ?b) (CallRate ?a)"
    by code_simp
  have rb: "running_best ex_orbit ''checkout'' ?tl [?a, ?b] = Some ?b"
    by code_simp
  note c4 = C4_running_best [of ex_orbit "''checkout''" ?tl "[?a, ?b]"]
  from c4 rb have s1: "SuggestedService (Evaluate ex_orbit ''checkout'' ?tl [?a, ?b]) = Source ?b"
    by simp
  have "\<exists>b \<in> set [?a, ?b]. time_supporting ex_orbit ''checkout'' ?tl b \<and>
          SuggestedService (Evaluate ex_orbit ''checkout'' ?tl [?a, ?b]) = Source b \<and>
          (\<forall>e \<in> set [?a, ?b]. time_supporting ex_orbit ''checkout'' ?tl e \<longrightarrow>
             \<not> fgt (CallRate e) (CallRate b))"
    by (rule c4 [THEN conjunct2, THEN conjunct2, THEN conjunct1, rule_format])
       (simp add: ta tb ea eb)
  then obtain b where b: "b \<in> set [?a, ?b]"
    and s: "SuggestedService (Evaluate ex_orbit ''checkout'' ?tl [?a, ?b]) = Source b"
    and best: "\<forall>e \<in> set [?a, ?b]. time_supporting ex_orbit ''checkout'' ?tl e \<longrightarrow>
                 \<not> fgt (CallRate e) (CallRate b)"
    by blast
  from best tb have "\<not> fgt (CallRate ?b) (CallRate b)" by simp
  with b gt have "b = ?b" by auto
  with s src have "SuggestedService (Evaluate ex_orbit ''checkout'' ?tl [?a, ?b]) = ''db''" by simp
  with r t ta tb ea eb gt rb show ?thesis by blast
qed

subsection \<open>The timeline of a result\<close>

















subsection \<open>The causality override\<close>


lemma uniqueStrings_from_cong:
  assumes "set seen - {[]} = set seen' - {[]}"
  shows "uniqueStrings_from seen vals = uniqueStrings_from seen' vals"
  using assms
proof (induction vals arbitrary: seen seen')
  case Nil
  show ?case by simp
next
  case (Cons v vs)
  from Cons.prems have mem: "v = [] \<or> v \<in> set seen \<longleftrightarrow> v = [] \<or> v \<in> set seen'"
    by blast
  from Cons.prems have "set (v # seen) - {[]} = set (v # seen') - {[]}"
    by auto
  then have a: "uniqueStrings_from (v # seen) vs = uniqueStrings_from (v # seen') vs"
    by (rule Cons.IH)
  from Cons.prems have b: "uniqueStrings_from seen vs = uniqueStrings_from seen' vs"
    by (rule Cons.IH)
  show ?case
    unfolding uniqueStrings_from.simps a b mem ..
qed










subsection \<open>The cache key of \<open>SimilarIncidents\<close>\<close>

lemma sort_mset_cong:
  fixes xs ys :: "'a::linorder list"
  assumes "mset xs = mset ys"
  shows "sort xs = sort ys"
  using assms by (metis properties_for_sort mset_sort sorted_sort)

text \<open>
  Claim C9.  For every tenant, every limit and every two symptom lists that are
  permutations of each other, \<open>SimilarIncidents\<close> computes the same cache key, and so
  its cache read finds the same entry for both.
\<close>

theorem C9_cache_key_permutation_invariant:
  assumes "mset symptoms = mset symptoms'"
  shows "SimilarIncidents_cacheKey r tenantID symptoms limit
       = SimilarIncidents_cacheKey r tenantID symptoms' limit \<and>
         SimilarIncidents_cacheRead r cacheGet unmarshal tenantID symptoms limit
       = SimilarIncidents_cacheRead r cacheGet unmarshal tenantID symptoms' limit"
  using sort_mset_cong [OF assms]
  by (simp add: SimilarIncidents_cacheKey_def SimilarIncidents_cacheRead_def)

theorem C9_cache_key_permutation_invariant_witness:
  "mset [''b'', ''a''] = mset [''a'', ''b''] \<and>
   SimilarIncidents_cacheKey \<lparr>endpoint = ''http://w'', apiKey = [], similarTTL = 120, patternTTL = 0\<rparr> ''t'' [''b'', ''a''] 2
     = SimilarIncidents_cacheKey \<lparr>endpoint = ''http://w'', apiKey = [], similarTTL = 120, patternTTL = 0\<rparr> ''t'' [''a'', ''b''] 2 \<and>
   SimilarIncidents_cacheKey \<lparr>endpoint = ''http://w'', apiKey = [], similarTTL = 120, patternTTL = 0\<rparr> ''t'' [''b'', ''a''] 2
     = Some ''weaviate:similar:t:2:a|b'' \<and>
   SimilarIncidents_cacheRead \<lparr>endpoint = ''http://w'', apiKey = [], similarTTL = 120, patternTTL = 0\<rparr>
       (\<lambda>k. if k = ''weaviate:similar:t:2:a|b'' then Some ''[]'' else None) Some ''t'' [''b'', ''a''] 2
     = SimilarIncidents_cacheRead \<lparr>endpoint = ''http://w'', apiKey = [], similarTTL = 120, patternTTL = 0\<rparr>
       (\<lambda>k. if k = ''weaviate:similar:t:2:a|b'' then Some ''[]'' else None) Some ''t'' [''a'', ''b''] 2 \<and>
   SimilarIncidents_cacheRead \<lparr>endpoint = ''http://w'', apiKey = [], similarTTL = 120, patternTTL = 0\<rparr>
       (\<lambda>k. if k = ''weaviate:similar:t:2:a|b'' then Some ''[]'' else None) Some ''t'' [''b'', ''a''] 2
     = Some ''[]''"
proof -
  have h: "mset [''b'', ''a''] = mset [''a'', ''b'']" by (simp add: add_mset_commute)
  have k: "SimilarIncidents_cacheKey \<lparr>endpoint = ''http://w'', apiKey = [], similarTTL = 120, patternTTL = 0\<rparr> ''t'' [''b'', ''a''] 2
     = Some ''weaviate:similar:t:2:a|b''"
    by code_simp
  have c: "SimilarIncidents_cacheRead \<lparr>endpoint = ''http://w'', apiKey = [], similarTTL = 120, patternTTL = 0\<rparr>
       (\<lambda>k. if k = ''weaviate:similar:t:2:a|b'' then Some ''[]'' else None) Some ''t'' [''b'', ''a''] 2
     = Some ''[]''"
    by code_simp
  show ?thesis
    using h k c
      C9_cache_key_permutation_invariant [OF h, of "\<lparr>endpoint = ''http://w'', apiKey = [], similarTTL = 120, patternTTL = 0\<rparr>"
        "''t''" 2 "\<lambda>k. if k = ''weaviate:similar:t:2:a|b'' then Some ''[]'' else None" Some]
    by metis
qed

end
